theory Spec2Isabelle
  imports Complex_Main "HOL-Library.Multiset"
begin

section \<open>Similarity and scoring kernel\<close>

text \<open>
  The functions of \<^verbatim>\<open>app/services/matching_service.py\<close>. In this section
  Python floats are taken as real numbers: sums, products, quotients and comparisons
  are exact. The same functions as the machine evaluates them on doubles, which the
  engine calls, follow in the section on double arithmetic.
\<close>

subsection \<open>Errors\<close>

datatype error = ValueError string

definition DimensionMismatch :: error where
  "DimensionMismatch = ValueError ''Vectors must have same dimension''"

subsection \<open>cosine\_similarity\<close>

text \<open>\<^verbatim>\<open>np.dot(a, b)\<close> on two vectors of one length.\<close>

definition dot :: "real list \<Rightarrow> real list \<Rightarrow> real" where
  "dot a b = sum_list (map (\<lambda>(x, y). x * y) (zip a b))"

text \<open>\<^verbatim>\<open>np.linalg.norm(a)\<close>: the Euclidean length.\<close>

definition linalg_norm :: "real list \<Rightarrow> real" where
  "linalg_norm a = sqrt (sum_list (map (\<lambda>x. x * x) a))"

definition cosine_similarity :: "real list \<Rightarrow> real list \<Rightarrow> error + real" where
  "cosine_similarity vec1 vec2 =
     (if length vec1 \<noteq> length vec2 then Inl DimensionMismatch
      else
        let dot_product = dot vec1 vec2;
            magnitude_a = linalg_norm vec1;
            magnitude_b = linalg_norm vec2
        in if magnitude_a = 0 \<or> magnitude_b = 0 then Inr 0
           else Inr (dot_product / (magnitude_a * magnitude_b)))"

subsection \<open>compute\_skill\_match\_percentage\<close>

text \<open>\<^verbatim>\<open>str.lower\<close> on the ASCII letters; every other byte is kept.\<close>

definition lower_char :: "char \<Rightarrow> char" where
  "lower_char c =
     (let n = (of_char c :: nat)
      in if 65 \<le> n \<and> n \<le> 90 then char_of (n + 32) else c)"

definition lower :: "string \<Rightarrow> string" where
  "lower s = map lower_char s"

definition compute_skill_match_percentage :: "string list \<Rightarrow> string list \<Rightarrow> real" where
  "compute_skill_match_percentage student_skills required_skills =
     (if required_skills = [] then 100
      else
        let student_skills_lower = set (map lower student_skills);
            required_skills_lower = set (map lower required_skills);
            matches = student_skills_lower \<inter> required_skills_lower
        in (real (card matches) / real (card required_skills_lower)) * 100)"

subsection \<open>check\_experience\_match\<close>

definition check_experience_match :: "real \<Rightarrow> int \<Rightarrow> int option \<Rightarrow> bool" where
  "check_experience_match student_experience min_required max_required =
     (if student_experience < of_int min_required then False
      else if max_required \<noteq> None \<and> student_experience > of_int (the max_required + 2) then False
      else True)"

subsection \<open>The combined score\<close>

text \<open>
  The weighted sum of \<^verbatim>\<open>generate_recommendations\<close>: its first argument is the
  similarity already normalised to the unit interval.
\<close>

definition combined_score :: "real \<Rightarrow> real \<Rightarrow> bool \<Rightarrow> real" where
  "combined_score match_score skill_match_pct experience_match =
     match_score * 0.5 +
     (skill_match_pct / 100) * 0.4 +
     (if experience_match then 1.0 else 0.5) * 0.1"

section \<open>Strings and numbers of the host language\<close>

text \<open>
  What the engine takes from the library and the machine are parameters: the SHA-256
  digest of a word (its bytes as naturals), the hexadecimal MD5 digest of a text, the
  decimal rendering of a float, the rounding \<open>fl\<close> of a real number to a double,
  numpy's dot product, norm and square root on doubles, the builtin \<^verbatim>\<open>sum\<close> of a
  sequence of doubles, and the power \<^verbatim>\<open>x ** n\<close> of a double.
\<close>

record pylib =
  sha256_digest :: "string \<Rightarrow> nat list"
  md5_hexdigest :: "string \<Rightarrow> string"
  str_float :: "real \<Rightarrow> string"
  fl :: "real \<Rightarrow> real"
  np_dot :: "real list \<Rightarrow> real list \<Rightarrow> real"
  np_linalg_norm :: "real list \<Rightarrow> real"
  np_sqrt :: "real \<Rightarrow> real"
  py_sum :: "real list \<Rightarrow> real"
  float_pow :: "real \<Rightarrow> nat \<Rightarrow> real"

text \<open>A JSON number is an integer or a float; both compare by value.\<close>

datatype number = PyInt int | PyFloat real

fun to_real :: "number \<Rightarrow> real" where
  "to_real (PyInt i) = of_int i"
| "to_real (PyFloat x) = x"

fun digits :: "nat \<Rightarrow> string" where
  "digits n = (if n < 10 then [char_of (48 + n)] else digits (n div 10) @ [char_of (48 + n mod 10)])"

definition str_int :: "int \<Rightarrow> string" where
  "str_int i = (if i < 0 then CHR ''-'' # digits (nat (- i)) else digits (nat i))"

fun str_number :: "pylib \<Rightarrow> number \<Rightarrow> string" where
  "str_number L (PyInt i) = str_int i"
| "str_number L (PyFloat x) = str_float L x"

text \<open>\<^verbatim>\<open>sep.join(xs)\<close>.\<close>

fun join :: "string \<Rightarrow> string list \<Rightarrow> string" where
  "join sep [] = []"
| "join sep [x] = x"
| "join sep (x # y # ys) = x @ sep @ join sep (y # ys)"

text \<open>The ASCII characters that \<^verbatim>\<open>str.isspace\<close> accepts.\<close>

definition isspace :: "char \<Rightarrow> bool" where
  "isspace c = (let n = (of_char c :: nat) in (9 \<le> n \<and> n \<le> 13) \<or> (28 \<le> n \<and> n \<le> 32))"

definition strip :: "string \<Rightarrow> string" where
  "strip s = rev (dropWhile isspace (rev (dropWhile isspace s)))"

text \<open>\<^verbatim>\<open>text.split()\<close>: the maximal runs of non-space characters, in order.\<close>

fun split_from :: "string \<Rightarrow> string \<Rightarrow> string list" where
  "split_from w [] = (if w = [] then [] else [rev w])"
| "split_from w (c # cs) =
     (if isspace c then (if w = [] then split_from [] cs else rev w # split_from [] cs)
      else split_from (c # w) cs)"

definition split :: "string \<Rightarrow> string list" where
  "split s = split_from [] s"

text \<open>\<^verbatim>\<open>int(x)\<close> truncates towards zero.\<close>

definition py_int :: "real \<Rightarrow> int" where
  "py_int x = (if 0 \<le> x then \<lfloor>x\<rfloor> else \<lceil>x\<rceil>)"

text \<open>
  \<^verbatim>\<open>round(x, n)\<close>: the nearest multiple of \<open>10\<^sup>-\<^sup>n\<close>, a tie going to the even
  one.
\<close>

definition round_half_even :: "real \<Rightarrow> int" where
  "round_half_even x =
     (let f = \<lfloor>x\<rfloor>; d = x - of_int f
      in if d < 1 / 2 then f else if 1 / 2 < d then f + 1 else if even f then f else f + 1)"

definition py_round :: "real \<Rightarrow> nat \<Rightarrow> real" where
  "py_round x n = of_int (round_half_even (x * 10 ^ n)) / 10 ^ n"

text \<open>\<^verbatim>\<open>xs[:n]\<close>: a negative bound counts from the end.\<close>

definition slice_to :: "'a list \<Rightarrow> int \<Rightarrow> 'a list" where
  "slice_to xs n = (if 0 \<le> n then take (nat n) xs else take (nat (int (length xs) + n)) xs)"

section \<open>Double arithmetic\<close>

text \<open>
  The engine computes its scores on IEEE-754 doubles. A double is a real number, and
  an operation on doubles returns its exact result rounded by \<open>fl\<close>; a literal such
  as \<^verbatim>\<open>0.4\<close> denotes \<open>fl (2 / 5)\<close>. The functions below are the functions of the
  scoring kernel as the machine evaluates them, with one rounding for each operation
  that can round. Nothing is assumed of \<open>fl\<close>, so what is proved of the engine holds
  for every rounding.
\<close>

definition float_cosine_similarity :: "pylib \<Rightarrow> real list \<Rightarrow> real list \<Rightarrow> error + real" where
  "float_cosine_similarity L vec1 vec2 =
     (if length vec1 \<noteq> length vec2 then Inl DimensionMismatch
      else
        let dot_product = np_dot L vec1 vec2;
            magnitude_a = np_linalg_norm L vec1;
            magnitude_b = np_linalg_norm L vec2
        in if magnitude_a = 0 \<or> magnitude_b = 0 then Inr 0
           else Inr (fl L (dot_product / fl L (magnitude_a * magnitude_b))))"

definition float_skill_match_percentage :: "pylib \<Rightarrow> string list \<Rightarrow> string list \<Rightarrow> real" where
  "float_skill_match_percentage L student_skills required_skills =
     (if required_skills = [] then 100
      else
        let student_skills_lower = set (map lower student_skills);
            required_skills_lower = set (map lower required_skills);
            matches = student_skills_lower \<inter> required_skills_lower
        in fl L (fl L (real (card matches) / real (card required_skills_lower)) * 100))"

definition float_combined_score :: "pylib \<Rightarrow> real \<Rightarrow> real \<Rightarrow> bool \<Rightarrow> real" where
  "float_combined_score L match_score skill_match_pct experience_match =
     fl L (fl L (fl L (match_score * 0.5) +
                 fl L (fl L (skill_match_pct / 100) * fl L 0.4)) +
           fl L ((if experience_match then 1.0 else 0.5) * fl L 0.1))"

text \<open>\<^verbatim>\<open>round(x, n)\<close> on a double: the double next to the rounded decimal.\<close>

definition float_round :: "pylib \<Rightarrow> real \<Rightarrow> nat \<Rightarrow> real" where
  "float_round L x n = fl L (py_round x n)"

text \<open>An arithmetic in which no operation rounds.\<close>

definition exact_arithmetic :: "pylib \<Rightarrow> bool" where
  "exact_arithmetic L \<longleftrightarrow>
     (\<forall>x. fl L x = x) \<and> (\<forall>a b. np_dot L a b = dot a b) \<and> (\<forall>a. np_linalg_norm L a = linalg_norm a)"

section \<open>Feature projector\<close>

text \<open>
  A parsed document's \<^verbatim>\<open>parsed_data\<close> is a dictionary; every key the engine reads
  may be missing.
\<close>

record education_entry =
  degree :: "string option"
  field :: "string option"

record experience_entry =
  role :: "string option"

record parsed_dict =
  skills :: "string list option"
  experience_years :: "number option"
  education :: "education_entry list option"
  experience :: "experience_entry list option"
  title :: "string option"
  required_skills :: "string list option"
  preferred_skills :: "string list option"
  min_experience :: "number option"
  max_experience :: "number option"

text \<open>\<^verbatim>\<open>d.get(key, default)\<close>.\<close>

definition get_or :: "'a option \<Rightarrow> 'a \<Rightarrow> 'a" where
  "get_or v d = (case v of None \<Rightarrow> d | Some x \<Rightarrow> x)"

definition text_to_features :: "pylib \<Rightarrow> parsed_dict \<Rightarrow> string \<Rightarrow> string" where
  "text_to_features L parsed_data entity_type =
     (let features =
        (if entity_type = ''student'' then
           [''skills: '' @ join '', '' (get_or (skills parsed_data) []),
            ''experience: '' @ str_number L (get_or (experience_years parsed_data) (PyInt 0)) @ '' years'']
           @ map (\<lambda>edu. ''education: '' @ get_or (degree edu) [] @ '' in '' @ get_or (field edu) [])
               (get_or (education parsed_data) [])
           @ concat (map (\<lambda>exp. let r = get_or (role exp) [] in if r \<noteq> [] then [''role: '' @ r] else [])
               (get_or (experience parsed_data) []))
         else if entity_type = ''job'' then
           [''title: '' @ get_or (title parsed_data) [],
            ''required skills: '' @ join '', '' (get_or (required_skills parsed_data) [])]
           @ (let pref_skills = get_or (preferred_skills parsed_data) []
              in if pref_skills \<noteq> [] then [''preferred skills: '' @ join '', '' pref_skills] else [])
           @ (let min_exp = get_or (min_experience parsed_data) (PyInt 0);
                  max_exp = max_experience parsed_data
              in case max_exp of
                   Some m \<Rightarrow>
                     if to_real m \<noteq> 0
                     then [''experience: '' @ str_number L min_exp @ ''-'' @ str_number L m @ '' years'']
                     else [''experience: '' @ str_number L min_exp @ ''+ years'']
                 | None \<Rightarrow> [''experience: '' @ str_number L min_exp @ ''+ years''])
         else [])
      in join '' | '' features)"

definition compute_text_hash :: "pylib \<Rightarrow> string \<Rightarrow> string" where
  "compute_text_hash L t = md5_hexdigest L t"

definition embedding_dim :: nat where
  "embedding_dim = 256"

text \<open>
  The inner loop for the word at position \<open>i\<close>: one signed contribution per byte.
  The vector is one of doubles, built and normalised in double arithmetic.
\<close>

definition add_word :: "pylib \<Rightarrow> real list \<Rightarrow> nat \<times> string \<Rightarrow> real list" where
  "add_word L embedding iw =
     (case iw of (i, word) \<Rightarrow>
        let word_hash = sha256_digest L word
        in foldl (\<lambda>emb j.
                    let idx = (i * 32 + j) mod embedding_dim
                    in emb[idx := fl L (emb ! idx +
                                          fl L ((real (word_hash ! (j mod length word_hash)) - 128) / 128))])
             embedding [0..<min 32 embedding_dim])"

definition generate_simple_embedding :: "pylib \<Rightarrow> string \<Rightarrow> real list" where
  "generate_simple_embedding L t =
     (let t = strip (lower t);
          words = split t;
          embedding = foldl (add_word L) (replicate embedding_dim 0) (enumerate 0 words);
          magnitude = np_sqrt L (py_sum L (map (\<lambda>x. float_pow L x 2) embedding))
      in if 0 < magnitude then map (\<lambda>x. fl L (x / magnitude)) embedding else embedding)"

section \<open>Stores\<close>

text \<open>
  The collaborators as explicit state: the embedding cache keyed by entity type and
  id, the latest parsed resume per student, the parsed description per job, and the
  rows of table \<^verbatim>\<open>jobs\<close> in the order the query returns them. A cache
  document's \<^verbatim>\<open>created_at\<close>, which nothing reads, is left out.
\<close>

record cache_doc =
  embedding :: "real list option"
  text_hash :: "string option"

record mongo_doc =
  parsed_data :: "parsed_dict option"

record jobs_row =
  jobs_job_id :: int
  jobs_title :: string
  jobs_company_id :: int
  jobs_min_experience :: int
  jobs_max_experience :: "int option"
  jobs_status :: string

record stores =
  embedding_cache :: "string \<times> int \<Rightarrow> cache_doc option"
  parsed_resumes :: "int \<Rightarrow> mongo_doc option"
  parsed_jds :: "int \<Rightarrow> mongo_doc option"
  jobs :: "jobs_row list"

definition get_embedding :: "stores \<Rightarrow> string \<Rightarrow> int \<Rightarrow> real list option" where
  "get_embedding st entity_type entity_id =
     (case embedding_cache st (entity_type, entity_id) of
        Some doc \<Rightarrow> embedding doc
      | None \<Rightarrow> None)"

definition store_embedding :: "stores \<Rightarrow> string \<Rightarrow> int \<Rightarrow> real list \<Rightarrow> string \<Rightarrow> stores" where
  "store_embedding st entity_type entity_id emb h =
     st\<lparr>embedding_cache :=
          (embedding_cache st)((entity_type, entity_id) \<mapsto> \<lparr>embedding = Some emb, text_hash = Some h\<rparr>)\<rparr>"

definition get_by_student :: "stores \<Rightarrow> int \<Rightarrow> mongo_doc option" where
  "get_by_student st student_id = parsed_resumes st student_id"

definition get_by_job :: "stores \<Rightarrow> int \<Rightarrow> mongo_doc option" where
  "get_by_job st job_id = parsed_jds st job_id"

text \<open>Truth value of an optional list: \<^verbatim>\<open>None\<close> and the empty list are false.\<close>

definition truthy :: "'a list option \<Rightarrow> bool" where
  "truthy v = (case v of None \<Rightarrow> False | Some xs \<Rightarrow> xs \<noteq> [])"

definition get_student_embedding ::
  "pylib \<Rightarrow> stores \<Rightarrow> int \<Rightarrow> bool \<Rightarrow> real list option \<times> stores" where
  "get_student_embedding L st student_id force_regenerate =
     (if \<not> force_regenerate \<and> truthy (get_embedding st ''student'' student_id)
      then (get_embedding st ''student'' student_id, st)
      else
        case get_by_student st student_id of
          None \<Rightarrow> (None, st)
        | Some parsed_doc \<Rightarrow>
            (case parsed_data parsed_doc of
               None \<Rightarrow> (None, st)
             | Some pd \<Rightarrow>
                 let feature_text = text_to_features L pd ''student'';
                     text_hash = compute_text_hash L feature_text;
                     emb = generate_simple_embedding L feature_text
                 in (Some emb, store_embedding st ''student'' student_id emb text_hash)))"

definition get_job_embedding ::
  "pylib \<Rightarrow> stores \<Rightarrow> int \<Rightarrow> bool \<Rightarrow> real list option \<times> stores" where
  "get_job_embedding L st job_id force_regenerate =
     (if \<not> force_regenerate \<and> truthy (get_embedding st ''job'' job_id)
      then (get_embedding st ''job'' job_id, st)
      else
        case get_by_job st job_id of
          None \<Rightarrow> (None, st)
        | Some parsed_doc \<Rightarrow>
            (case parsed_data parsed_doc of
               None \<Rightarrow> (None, st)
             | Some pd \<Rightarrow>
                 let feature_text = text_to_features L pd ''job'';
                     text_hash = compute_text_hash L feature_text;
                     emb = generate_simple_embedding L feature_text
                 in (Some emb, store_embedding st ''job'' job_id emb text_hash)))"

section \<open>Recommendation engine\<close>

record recommendation =
  job_id :: int
  job_title :: string
  match_score :: real
  skill_match_pct :: real
  experience_match :: bool
  embedding_similarity :: real

text \<open>
  The body of the scoring loop for one job, once its embedding and its parsed
  description have been fetched: \<open>None\<close> when the job is passed over, otherwise the
  combined score and the entry built from it. The arithmetic is that of doubles.
\<close>

definition score_entry ::
  "pylib \<Rightarrow> real list \<Rightarrow> string list \<Rightarrow> real \<Rightarrow> jobs_row \<Rightarrow> real list option
     \<Rightarrow> mongo_doc option \<Rightarrow> error + (real \<times> recommendation) option" where
  "score_entry L student_embedding student_skills student_experience job job_embedding job_doc =
     (if \<not> truthy job_embedding then Inr None
      else
        case float_cosine_similarity L student_embedding (the job_embedding) of
          Inl e \<Rightarrow> Inl e
        | Inr similarity \<Rightarrow>
            let m = fl L (fl L (similarity + 1) / 2);
                job_data = (case job_doc of None \<Rightarrow> None | Some d \<Rightarrow> parsed_data d);
                pct = (case job_data of
                         Some jd \<Rightarrow>
                           float_skill_match_percentage L student_skills
                             (get_or (required_skills jd) [])
                       | None \<Rightarrow> 50);
                ok = (case job_data of
                        Some jd \<Rightarrow>
                          check_experience_match student_experience
                            (jobs_min_experience job) (jobs_max_experience job)
                      | None \<Rightarrow> True);
                c = float_combined_score L m pct ok
            in Inr (Some (c,
                 \<lparr>job_id = jobs_job_id job,
                  job_title = jobs_title job,
                  match_score = float_round L c 4,
                  skill_match_pct = float_round L pct 2,
                  experience_match = ok,
                  embedding_similarity = float_round L m 4\<rparr>)))"

definition score_job ::
  "pylib \<Rightarrow> stores \<Rightarrow> real list \<Rightarrow> string list \<Rightarrow> real \<Rightarrow> jobs_row
     \<Rightarrow> (error + (real \<times> recommendation) option) \<times> stores" where
  "score_job L st student_embedding student_skills student_experience job =
     (case get_job_embedding L st (jobs_job_id job) False of
        (job_embedding, st1) \<Rightarrow>
          (score_entry L student_embedding student_skills student_experience job
             job_embedding (get_by_job st1 (jobs_job_id job)), st1))"

text \<open>The loop over the open jobs; an exception ends it with the cache as it then is.\<close>

fun score_jobs ::
  "pylib \<Rightarrow> stores \<Rightarrow> real list \<Rightarrow> string list \<Rightarrow> real \<Rightarrow> real \<Rightarrow> jobs_row list
     \<Rightarrow> recommendation list \<Rightarrow> (error + recommendation list) \<times> stores" where
  "score_jobs L st se sk ex min_score [] recommendations = (Inr recommendations, st)"
| "score_jobs L st se sk ex min_score (job # open_jobs) recommendations =
     (case score_job L st se sk ex job of
        (Inl e, st1) \<Rightarrow> (Inl e, st1)
      | (Inr None, st1) \<Rightarrow> score_jobs L st1 se sk ex min_score open_jobs recommendations
      | (Inr (Some (c, r)), st1) \<Rightarrow>
          score_jobs L st1 se sk ex min_score open_jobs
            (if min_score \<le> c then recommendations @ [r] else recommendations))"

text \<open>
  \<^verbatim>\<open>list.sort(key=..., reverse=True)\<close> is stable: entries with equal keys keep
  their order. It is the stable ascending sort on the negated key.
\<close>

definition sort_by_score :: "recommendation list \<Rightarrow> recommendation list" where
  "sort_by_score recommendations = sort_key (\<lambda>x. - match_score x) recommendations"

definition open_jobs_of :: "stores \<Rightarrow> jobs_row list" where
  "open_jobs_of st = filter (\<lambda>j. jobs_status j = ''open'') (jobs st)"

definition generate_recommendations ::
  "pylib \<Rightarrow> stores \<Rightarrow> int \<Rightarrow> int \<Rightarrow> real \<Rightarrow> (error + recommendation list) \<times> stores" where
  "generate_recommendations L st student_id top_n min_score =
     (case get_student_embedding L st student_id False of
        (student_embedding, st1) \<Rightarrow>
          if \<not> truthy student_embedding then (Inr [], st1)
          else
            case get_by_student st1 student_id of
              None \<Rightarrow> (Inr [], st1)
            | Some student_doc \<Rightarrow>
                let student_data = parsed_data student_doc;
                    student_skills =
                      (case student_data of None \<Rightarrow> [] | Some d \<Rightarrow> get_or (skills d) []);
                    student_experience =
                      (case student_data of None \<Rightarrow> PyInt 0
                       | Some d \<Rightarrow> get_or (experience_years d) (PyInt 0))
                in case score_jobs L st1 (the student_embedding) student_skills
                          (to_real student_experience) min_score (open_jobs_of st1) [] of
                     (Inl e, st2) \<Rightarrow> (Inl e, st2)
                   | (Inr recommendations, st2) \<Rightarrow>
                       (Inr (slice_to (sort_by_score recommendations) top_n), st2))"

subsection \<open>Properties of the stored recommendations\<close>

text \<open>
  Table \<^verbatim>\<open>ai_recommendations\<close> as the list of its rows, with the columns the
  statements of the service name; times are seconds.
\<close>

type_synonym timestamp = real

record ai_recommendation =
  student_id :: int
  row_job_id :: int
  row_match_score :: real
  row_skill_match_pct :: real
  row_experience_match :: bool
  recommendation_reason :: string
  is_viewed :: bool
  is_applied :: bool
  created_at :: timestamp
  expires_at :: timestamp

definition timedelta_days :: "int \<Rightarrow> timestamp" where
  "timedelta_days d = of_int d * 86400"

definition generate_reason :: "pylib \<Rightarrow> recommendation \<Rightarrow> string" where
  "generate_reason L r =
     (let score_pct = py_int (fl L (match_score r * 100));
          skill_pct = py_int (skill_match_pct r);
          reasons =
            [''Overall match: '' @ str_int score_pct @ ''%'']
            @ [if 80 \<le> skill_pct then ''Excellent skill match ('' @ str_int skill_pct @ ''%)''
               else if 50 \<le> skill_pct then ''Good skill match ('' @ str_int skill_pct @ ''%)''
               else ''Partial skill match ('' @ str_int skill_pct @ ''%)'']
            @ [if experience_match r then ''Experience requirements met''
               else ''Experience slightly outside range'']
      in join ''. '' reasons @ ''.'')"

text \<open>
  The \<^verbatim>\<open>INSERT ... ON CONFLICT (student_id, job_id) DO UPDATE\<close> statement. A new
  row takes the columns the statement does not list from \<open>dflt\<close>, the column
  defaults of the table.
\<close>

definition upsert ::
  "ai_recommendation \<Rightarrow> timestamp \<Rightarrow> ai_recommendation list
     \<Rightarrow> int \<Rightarrow> recommendation \<Rightarrow> string \<Rightarrow> timestamp \<Rightarrow> ai_recommendation list" where
  "upsert dflt current_timestamp tbl sid r reason expires =
     (if \<exists>row \<in> set tbl. student_id row = sid \<and> row_job_id row = job_id r
      then map (\<lambda>row.
                  if student_id row = sid \<and> row_job_id row = job_id r
                  then row\<lparr>row_match_score := match_score r,
                           row_skill_match_pct := skill_match_pct r,
                           row_experience_match := experience_match r,
                           recommendation_reason := reason,
                           expires_at := expires,
                           created_at := current_timestamp\<rparr>
                  else row) tbl
      else tbl @ [dflt\<lparr>student_id := sid,
                        row_job_id := job_id r,
                        row_match_score := match_score r,
                        row_skill_match_pct := skill_match_pct r,
                        row_experience_match := experience_match r,
                        recommendation_reason := reason,
                        expires_at := expires\<rparr>])"

definition store_recommendations ::
  "pylib \<Rightarrow> ai_recommendation \<Rightarrow> timestamp \<Rightarrow> timestamp \<Rightarrow> ai_recommendation list
     \<Rightarrow> int \<Rightarrow> recommendation list \<Rightarrow> nat \<times> ai_recommendation list" where
  "store_recommendations L dflt utcnow current_timestamp tbl sid recommendations =
     (if recommendations = [] then (0, tbl)
      else
        let expires = utcnow + timedelta_days 7
        in foldl (\<lambda>(stored_count, tbl) r.
                    (stored_count + 1,
                     upsert dflt current_timestamp tbl sid r (generate_reason L r) expires))
             (0, tbl) recommendations)"

text \<open>The two \<^verbatim>\<open>UPDATE\<close> statements; the result is \<^verbatim>\<open>rowcount > 0\<close>.\<close>

definition mark_recommendation_viewed ::
  "ai_recommendation list \<Rightarrow> int \<Rightarrow> int \<Rightarrow> bool \<times> ai_recommendation list" where
  "mark_recommendation_viewed tbl sid jid =
     (0 < length (filter (\<lambda>row. student_id row = sid \<and> row_job_id row = jid) tbl),
      map (\<lambda>row. if student_id row = sid \<and> row_job_id row = jid
                  then row\<lparr>is_viewed := True\<rparr> else row) tbl)"

definition mark_recommendation_applied ::
  "ai_recommendation list \<Rightarrow> int \<Rightarrow> int \<Rightarrow> bool \<times> ai_recommendation list" where
  "mark_recommendation_applied tbl sid jid =
     (0 < length (filter (\<lambda>row. student_id row = sid \<and> row_job_id row = jid) tbl),
      map (\<lambda>row. if student_id row = sid \<and> row_job_id row = jid
                  then row\<lparr>is_applied := True\<rparr> else row) tbl)"

section \<open>Notions used in the statements\<close>

text \<open>The first row of the table with a given key.\<close>

definition row_of :: "ai_recommendation list \<Rightarrow> int \<Rightarrow> int \<Rightarrow> ai_recommendation option" where
  "row_of tbl sid jid = find (\<lambda>row. student_id row = sid \<and> row_job_id row = jid) tbl"

text \<open>The table after the upserts of a batch, one after the other.\<close>

definition upsert_all ::
  "pylib \<Rightarrow> ai_recommendation \<Rightarrow> timestamp \<Rightarrow> int \<Rightarrow> timestamp \<Rightarrow> ai_recommendation list
     \<Rightarrow> recommendation list \<Rightarrow> ai_recommendation list" where
  "upsert_all L dflt ts sid ex tbl recs =
     foldl (\<lambda>tbl r. upsert dflt ts tbl sid r (generate_reason L r) ex) tbl recs"

text \<open>The skills that \<^verbatim>\<open>generate_recommendations\<close> reads from a resume document.\<close>

definition doc_skills :: "mongo_doc \<Rightarrow> string list" where
  "doc_skills d = (case parsed_data d of None \<Rightarrow> [] | Some pd \<Rightarrow> get_or (skills pd) [])"

text \<open>The experience that \<^verbatim>\<open>generate_recommendations\<close> reads from a resume document.\<close>

definition doc_experience :: "mongo_doc \<Rightarrow> real" where
  "doc_experience d =
     to_real (case parsed_data d of None \<Rightarrow> PyInt 0 | Some pd \<Rightarrow> get_or (experience_years pd) (PyInt 0))"

text \<open>The jobs that are scored, in the order of the job list: combined score and entry.\<close>

definition scored_entries ::
  "pylib \<Rightarrow> stores \<Rightarrow> real list \<Rightarrow> string list \<Rightarrow> real \<Rightarrow> jobs_row list
     \<Rightarrow> (real \<times> recommendation) list" where
  "scored_entries L st se sk ex open_jobs =
     concat (map (\<lambda>job. case fst (score_job L st se sk ex job) of
                           Inr (Some cr) \<Rightarrow> [cr]
                         | _ \<Rightarrow> []) open_jobs)"

text \<open>The entries of the scored jobs whose combined score reaches the threshold.\<close>

definition kept_entries ::
  "pylib \<Rightarrow> stores \<Rightarrow> real list \<Rightarrow> string list \<Rightarrow> real \<Rightarrow> real \<Rightarrow> jobs_row list
     \<Rightarrow> recommendation list" where
  "kept_entries L st se sk ex min_score open_jobs =
     map snd (filter (\<lambda>cr. min_score \<le> fst cr) (scored_entries L st se sk ex open_jobs))"

text \<open>Two stores that hold the same documents and job rows and resolve every embedding
  to the same vector.\<close>

definition same_view :: "pylib \<Rightarrow> stores \<Rightarrow> stores \<Rightarrow> bool" where
  "same_view L st st' \<longleftrightarrow>
     parsed_resumes st' = parsed_resumes st
     \<and> parsed_jds st' = parsed_jds st
     \<and> jobs st' = jobs st
     \<and> (\<forall>j. fst (get_job_embedding L st' j False) = fst (get_job_embedding L st j False))
     \<and> (\<forall>s. fst (get_student_embedding L st' s False) = fst (get_student_embedding L st s False))"

subsection \<open>Example data\<close>

definition example_row :: ai_recommendation where
  "example_row =
     \<lparr>student_id = 1, row_job_id = 2, row_match_score = 1 / 2, row_skill_match_pct = 40,
      row_experience_match = False, recommendation_reason = ''old'',
      is_viewed = True, is_applied = False, created_at = 5, expires_at = 9\<rparr>"

definition example_rec :: recommendation where
  "example_rec =
     \<lparr>job_id = 2, job_title = ''Engineer'', match_score = 4 / 5, skill_match_pct = 50,
      experience_match = True, embedding_similarity = 1\<rparr>"

text \<open>
  A library whose arithmetic does not round, and stores with a candidate with a cached
  vector and three open jobs with cached vectors and no parsed description.
\<close>

definition example_lib :: pylib where
  "example_lib =
     \<lparr>sha256_digest = (\<lambda>w. replicate 32 0), md5_hexdigest = (\<lambda>t. []), str_float = (\<lambda>x. []),
      fl = (\<lambda>x. x), np_dot = dot, np_linalg_norm = linalg_norm, np_sqrt = sqrt,
      py_sum = sum_list, float_pow = (\<lambda>x n. x ^ n)\<rparr>"

definition example_resume :: parsed_dict where
  "example_resume =
     \<lparr>skills = Some [''Python''], experience_years = Some (PyInt 1), education = None,
      experience = None, title = None, required_skills = None, preferred_skills = None,
      min_experience = None, max_experience = None\<rparr>"

definition example_stores :: stores where
  "example_stores =
     \<lparr>embedding_cache =
        [(''student'', 1) \<mapsto> \<lparr>embedding = Some [1, 0], text_hash = None\<rparr>,
         (''job'', 10) \<mapsto> \<lparr>embedding = Some [20200, 201], text_hash = None\<rparr>,
         (''job'', 11) \<mapsto> \<lparr>embedding = Some [1, 0], text_hash = None\<rparr>,
         (''job'', 12) \<mapsto> \<lparr>embedding = Some [0, 1], text_hash = None\<rparr>],
      parsed_resumes = [1 \<mapsto> \<lparr>parsed_data = Some example_resume\<rparr>],
      parsed_jds = Map.empty,
      jobs =
        [\<lparr>jobs_job_id = 10, jobs_title = ''Analyst'', jobs_company_id = 1, jobs_min_experience = 0,
          jobs_max_experience = None, jobs_status = ''open''\<rparr>,
         \<lparr>jobs_job_id = 11, jobs_title = ''Engineer'', jobs_company_id = 1, jobs_min_experience = 0,
          jobs_max_experience = None, jobs_status = ''open''\<rparr>,
         \<lparr>jobs_job_id = 12, jobs_title = ''Tester'', jobs_company_id = 1, jobs_min_experience = 0,
          jobs_max_experience = None, jobs_status = ''open''\<rparr>]\<rparr>"

section \<open>Properties of the scoring kernel\<close>

text \<open>
  C4. \<^verbatim>\<open>check_experience_match\<close> is false below the minimum; otherwise true when
  no maximum is set, true up to the maximum plus the fixed two years, and false above
  that. The five worked examples of the specification hold.
\<close>

theorem check_experience_match_spec:
  "check_experience_match y mn mx =
     (if y < of_int mn then False
      else case mx of None \<Rightarrow> True | Some m \<Rightarrow> y \<le> of_int m + 2)
   \<and> check_experience_match 2.0 1 (Some 3) = True
   \<and> check_experience_match 0.5 2 (Some 5) = False
   \<and> check_experience_match 5.0 2 (Some 4) = True
   \<and> check_experience_match 10.0 2 (Some 4) = False
   \<and> check_experience_match 15.0 5 None = True"
  by (auto simp: check_experience_match_def split: option.splits)

subsection \<open>Vectors\<close>

lemma sum_sq_nonneg: "0 \<le> sum_list (map (\<lambda>x. x * x) (a :: real list))"
  by (induction a) auto

lemma sum_sq_zero: "sum_list (map (\<lambda>x. x * x) a) = 0 \<longleftrightarrow> (\<forall>x\<in>set a. x = (0::real))"
proof (induction a)
  case Nil
  show ?case by simp
next
  case (Cons y ys)
  have "y * y + sum_list (map (\<lambda>x. x * x) ys) = 0
          \<longleftrightarrow> y * y = 0 \<and> sum_list (map (\<lambda>x. x * x) ys) = 0"
    by (rule add_nonneg_eq_0_iff) (simp_all add: sum_sq_nonneg)
  with Cons show ?case by simp
qed

lemma linalg_norm_zero: "linalg_norm a = 0 \<longleftrightarrow> (\<forall>x\<in>set a. x = 0)"
  by (simp add: linalg_norm_def sum_sq_zero)

lemma linalg_norm_nonneg: "0 \<le> linalg_norm a"
  by (simp add: linalg_norm_def sum_sq_nonneg)

text \<open>The Cauchy-Schwarz inequality, one coordinate at a time.\<close>

lemma cs_step:
  fixes S A B a b :: real
  assumes "S\<^sup>2 \<le> A * B" "0 \<le> A" "0 \<le> B"
  shows "(S + a * b)\<^sup>2 \<le> (A + a * a) * (B + b * b)"
proof -
  let ?u = "A * (b * b)" and ?v = "(a * a) * B"
  have u: "0 \<le> ?u" and v: "0 \<le> ?v" using assms by simp_all
  have "(S * (a * b))\<^sup>2 = S\<^sup>2 * ((a * a) * (b * b))"
    by (simp add: power2_eq_square algebra_simps)
  also have "\<dots> \<le> (A * B) * ((a * a) * (b * b))"
    by (rule mult_right_mono [OF assms(1)]) simp
  also have "\<dots> = ?u * ?v" by (simp add: algebra_simps)
  also have "\<dots> \<le> ((?u + ?v) / 2)\<^sup>2"
  proof -
    have "0 \<le> (?u - ?v)\<^sup>2" by simp
    then show ?thesis by (simp add: power2_eq_square algebra_simps)
  qed
  finally have "S * (a * b) \<le> (?u + ?v) / 2"
    by (rule power2_le_imp_le) (use u v in simp)
  then have "2 * (S * (a * b)) \<le> ?u + ?v" by simp
  moreover have "(S + a * b)\<^sup>2 = S\<^sup>2 + 2 * (S * (a * b)) + (a * a) * (b * b)"
    by (simp add: power2_eq_square algebra_simps)
  moreover have "(A + a * a) * (B + b * b) = A * B + ?u + ?v + (a * a) * (b * b)"
    by (simp add: algebra_simps)
  ultimately show ?thesis using assms(1) by linarith
qed

lemma dot_squared_le:
  "(dot a b)\<^sup>2 \<le> sum_list (map (\<lambda>x. x * x) a) * sum_list (map (\<lambda>x. x * x) b)"
proof (induction a arbitrary: b)
  case Nil
  show ?case by (simp add: dot_def)
next
  case (Cons x xs)
  show ?case
  proof (cases b)
    case Nil
    then show ?thesis by (simp add: dot_def)
  next
    case (Cons y ys)
    have "(dot xs ys + x * y)\<^sup>2
            \<le> (sum_list (map (\<lambda>x. x * x) xs) + x * x) * (sum_list (map (\<lambda>x. x * x) ys) + y * y)"
      by (rule cs_step [OF Cons.IH sum_sq_nonneg sum_sq_nonneg])
    then show ?thesis using Cons by (simp add: dot_def add.commute)
  qed
qed

lemma abs_dot_le: "\<bar>dot a b\<bar> \<le> linalg_norm a * linalg_norm b"
proof -
  have "\<bar>dot a b\<bar> = sqrt ((dot a b)\<^sup>2)" by simp
  also have "\<dots> \<le> sqrt (sum_list (map (\<lambda>x. x * x) a) * sum_list (map (\<lambda>x. x * x) b))"
    using dot_squared_le by (rule real_sqrt_le_mono)
  finally show ?thesis by (simp add: linalg_norm_def real_sqrt_mult)
qed

lemma cosine_similarity_range:
  assumes "cosine_similarity a b = Inr s"
  shows "- 1 \<le> s \<and> s \<le> 1"
proof (cases "linalg_norm a = 0 \<or> linalg_norm b = 0")
  case True
  with assms show ?thesis by (auto simp: cosine_similarity_def Let_def split: if_splits)
next
  case False
  with linalg_norm_nonneg [of a] linalg_norm_nonneg [of b]
  have pos: "0 < linalg_norm a * linalg_norm b" by (simp add: less_le)
  from assms False have s: "s = dot a b / (linalg_norm a * linalg_norm b)"
    by (auto simp: cosine_similarity_def Let_def split: if_splits)
  have "\<bar>s\<bar> \<le> 1" unfolding s using abs_dot_le [of a b] pos by (simp add: divide_le_eq)
  then show ?thesis by (simp add: abs_le_iff)
qed

text \<open>
  C5. \<^verbatim>\<open>cosine_similarity\<close> raises exactly when the two lengths differ, and the
  error is then the dimension mismatch. On vectors of one length it returns the dot
  product over the product of the norms, except that it returns 0 when one vector has
  magnitude zero, that is, when all its entries are zero; in the other case the divisor
  is not zero.
\<close>

theorem cosine_similarity_spec:
  "(isl (cosine_similarity a b) \<longleftrightarrow> length a \<noteq> length b)
   \<and> (length a \<noteq> length b \<longrightarrow> cosine_similarity a b = Inl DimensionMismatch)
   \<and> (length a = length b \<longrightarrow>
        cosine_similarity a b =
          Inr (if linalg_norm a = 0 \<or> linalg_norm b = 0 then 0
               else dot a b / (linalg_norm a * linalg_norm b)))
   \<and> (linalg_norm a = 0 \<longleftrightarrow> (\<forall>x\<in>set a. x = 0))
   \<and> (linalg_norm b = 0 \<longleftrightarrow> (\<forall>x\<in>set b. x = 0))
   \<and> (linalg_norm a \<noteq> 0 \<and> linalg_norm b \<noteq> 0 \<longrightarrow> linalg_norm a * linalg_norm b \<noteq> 0)"
  by (simp add: cosine_similarity_def Let_def linalg_norm_zero)

lemma sqrt_25: "sqrt 25 = 5"
  using real_sqrt_abs [of 5] by simp

theorem cosine_similarity_spec_witness:
  "cosine_similarity [1, 0] [3] = Inl DimensionMismatch
   \<and> cosine_similarity [1, 0] [3, 4] = Inr (3 / 5)
   \<and> cosine_similarity [0, 0] [3, 4] = Inr 0"
  using cosine_similarity_spec [of "[1, 0]" "[3]"]
        cosine_similarity_spec [of "[1, 0]" "[3, 4]"]
        cosine_similarity_spec [of "[0, 0]" "[3, 4]"]
  by (simp add: dot_def linalg_norm_def sqrt_25)

text \<open>
  C1. For a similarity \<open>s\<close> between -1 and 1, a skill match percentage \<open>p\<close> between
  0 and 100 and an experience flag \<open>e\<close>, the combined score that the scoring loop
  computes from the normalised similarity \<open>(s + 1) / 2\<close> is
  \<open>0.5 * ((s + 1) / 2) + 0.4 * (p / 100) + 0.1 * (if e then 1.0 else 0.5)\<close>, and it lies
  between 0 and 1.
\<close>

theorem combined_score_spec:
  "- 1 \<le> s \<and> s \<le> 1 \<and> 0 \<le> p \<and> p \<le> 100 \<Longrightarrow>
   combined_score ((s + 1) / 2) p e
     = 0.5 * ((s + 1) / 2) + 0.4 * (p / 100) + 0.1 * (if e then 1.0 else 0.5)
   \<and> 0 \<le> combined_score ((s + 1) / 2) p e \<and> combined_score ((s + 1) / 2) p e \<le> 1"
proof -
  assume h: "- 1 \<le> s \<and> s \<le> 1 \<and> 0 \<le> p \<and> p \<le> 100"
  have eq: "combined_score ((s + 1) / 2) p e = (s + 1) / 4 + p / 250 + (if e then 1 / 10 else 1 / 20)"
    by (simp add: combined_score_def)
  have "0 \<le> (s + 1) / 4 + p / 250 + (if e then 1 / 10 else 1 / 20)"
    using h by simp
  moreover have "(s + 1) / 4 + p / 250 + (if e then 1 / 10 else 1 / 20) \<le> 1"
    using h by (cases e) (simp_all add: field_simps)
  ultimately show ?thesis using eq by simp
qed

theorem combined_score_spec_witness:
  "- 1 \<le> (1::real) \<and> (1::real) \<le> 1 \<and> 0 \<le> (100::real) \<and> (100::real) \<le> 100
   \<and> combined_score ((1 + 1) / 2) 100 True = 1
   \<and> combined_score ((- 1 + 1) / 2) 0 False = 1 / 20"
  using combined_score_spec [of 1 100 True] combined_score_spec [of "- 1" 0 False]
  by simp

subsection \<open>Skill overlap\<close>

lemma skill_match_examples:
  "compute_skill_match_percentage [''Python'', ''SQL'', ''Docker''] [''Python'', ''SQL'', ''Docker''] = 100"
  "compute_skill_match_percentage [''Python'', ''JavaScript''] [''Python'', ''SQL'', ''Docker'', ''AWS''] = 25"
  "compute_skill_match_percentage [''python''] [''Python''] = 100"
  by code_simp+

lemma skill_match_range:
  "0 \<le> compute_skill_match_percentage cs rs \<and> compute_skill_match_percentage cs rs \<le> 100"
proof (cases "rs = []")
  case True
  then show ?thesis by (simp add: compute_skill_match_percentage_def)
next
  case False
  let ?R = "set (map lower rs)" and ?C = "set (map lower cs)"
  have "card (?C \<inter> ?R) \<le> card ?R" by (intro card_mono) auto
  moreover have "0 < card ?R" using False by (simp add: card_gt_0_iff)
  ultimately show ?thesis using False
    by (simp add: compute_skill_match_percentage_def Let_def divide_le_eq)
qed

text \<open>
  C3. \<^verbatim>\<open>compute_skill_match_percentage\<close> returns 100 when no skill is required.
  Otherwise it returns 100 times the number of required skills the candidate has over
  the number of required skills, both counted on the sets of lower-cased names. The
  result lies between 0 and 100, and the three worked examples hold.
\<close>

theorem compute_skill_match_percentage_spec:
  "compute_skill_match_percentage cs [] = 100
   \<and> (rs \<noteq> [] \<longrightarrow>
        compute_skill_match_percentage cs rs
          = 100 * real (card (lower ` set cs \<inter> lower ` set rs)) / real (card (lower ` set rs)))
   \<and> 0 \<le> compute_skill_match_percentage cs rs
   \<and> compute_skill_match_percentage cs rs \<le> 100
   \<and> compute_skill_match_percentage [''Python'', ''SQL'', ''Docker''] [''Python'', ''SQL'', ''Docker''] = 100
   \<and> compute_skill_match_percentage [''Python'', ''JavaScript''] [''Python'', ''SQL'', ''Docker'', ''AWS''] = 25
   \<and> compute_skill_match_percentage [''python''] [''Python''] = 100"
  using skill_match_range [of cs rs]
  by (simp add: skill_match_examples) (simp add: compute_skill_match_percentage_def)

theorem compute_skill_match_percentage_spec_witness:
  "[''Python'', ''SQL''] \<noteq> []
   \<and> compute_skill_match_percentage [''sql''] [''Python'', ''SQL'']
       = 100 * real (card (lower ` set [''sql''] \<inter> lower ` set [''Python'', ''SQL'']))
           / real (card (lower ` set [''Python'', ''SQL'']))"
  using compute_skill_match_percentage_spec [of "[''sql'']" "[''Python'', ''SQL'']"]
  by simp

section \<open>Properties of the stored recommendations\<close>

lemma find_map_upd:
  "find P (map (\<lambda>x. if Q x then g x else x) xs) =
     (case find P xs of None \<Rightarrow> None | Some x \<Rightarrow> Some (if Q x then g x else x))"
  if "\<And>x. P (g x) = P x"
  using that by (induction xs) auto

lemma find_app:
  "find P (xs @ ys) = (case find P xs of None \<Rightarrow> find P ys | Some x \<Rightarrow> Some x)"
  by (induction xs) auto

lemma row_of_upsert_same:
  "row_of (upsert dflt ts tbl sid r reason ex) sid (job_id r) =
     Some (case row_of tbl sid (job_id r) of
             Some old \<Rightarrow> old\<lparr>row_match_score := match_score r,
                           row_skill_match_pct := skill_match_pct r,
                           row_experience_match := experience_match r,
                           recommendation_reason := reason,
                           expires_at := ex,
                           created_at := ts\<rparr>
           | None \<Rightarrow> dflt\<lparr>student_id := sid,
                        row_job_id := job_id r,
                        row_match_score := match_score r,
                        row_skill_match_pct := skill_match_pct r,
                        row_experience_match := experience_match r,
                        recommendation_reason := reason,
                        expires_at := ex\<rparr>)"
proof (cases "\<exists>row \<in> set tbl. student_id row = sid \<and> row_job_id row = job_id r")
  case True
  then obtain old where "row_of tbl sid (job_id r) = Some old"
    unfolding row_of_def by (cases "find (\<lambda>row. student_id row = sid \<and> row_job_id row = job_id r) tbl") (auto simp: find_None_iff)
  moreover from this have "student_id old = sid \<and> row_job_id old = job_id r"
    unfolding row_of_def by (auto simp: find_Some_iff)
  ultimately show ?thesis using True
    unfolding upsert_def row_of_def by (simp add: find_map_upd)
next
  case False
  then have "row_of tbl sid (job_id r) = None"
    unfolding row_of_def by (auto simp: find_None_iff)
  then show ?thesis
    unfolding upsert_def if_not_P [OF False] by (simp add: row_of_def find_app)
qed

lemma row_of_upsert_other:
  assumes "s \<noteq> sid \<or> j \<noteq> job_id r"
  shows "row_of (upsert dflt ts tbl sid r reason ex) s j = row_of tbl s j"
proof (cases "\<exists>row \<in> set tbl. student_id row = sid \<and> row_job_id row = job_id r")
  case True
  have "row_of (upsert dflt ts tbl sid r reason ex) s j =
        (case row_of tbl s j of None \<Rightarrow> None | Some x \<Rightarrow> Some (if student_id x = sid \<and> row_job_id x = job_id r then x\<lparr>row_match_score := match_score r,
                           row_skill_match_pct := skill_match_pct r,
                           row_experience_match := experience_match r,
                           recommendation_reason := reason,
                           expires_at := ex,
                           created_at := ts\<rparr> else x))"
    using True unfolding upsert_def row_of_def by (simp add: find_map_upd)
  moreover have "\<And>x. row_of tbl s j = Some x \<Longrightarrow> \<not> (student_id x = sid \<and> row_job_id x = job_id r)"
    using assms unfolding row_of_def by (auto simp: find_Some_iff)
  ultimately show ?thesis by (auto split: option.splits)
next
  case False
  from assms show ?thesis
    unfolding upsert_def if_not_P [OF False] by (auto simp: row_of_def find_app split: option.splits)
qed


lemma store_fold:
  "foldl (\<lambda>(stored_count, tbl) r. (stored_count + 1, upsert dflt ts tbl sid r (generate_reason L r) ex))
     (n, tbl) recs = (n + length recs, upsert_all L dflt ts sid ex tbl recs)"
  unfolding upsert_all_def by (induction recs arbitrary: n tbl) auto

lemma store_recommendations_eq:
  "store_recommendations L dflt utcnow ts tbl sid recs =
     (length recs, upsert_all L dflt ts sid (utcnow + 604800) tbl recs)"
  unfolding store_recommendations_def Let_def store_fold
  by (simp add: timedelta_days_def upsert_all_def)

lemma upsert_all_snoc:
  "upsert_all L dflt ts sid ex tbl (recs @ [r]) =
     upsert dflt ts (upsert_all L dflt ts sid ex tbl recs) sid r (generate_reason L r) ex"
  by (simp add: upsert_all_def)


lemma upsert_all_rows:
  "(j \<in> job_id ` set recs \<longrightarrow>
      (\<exists>row' r. row_of (upsert_all L dflt ts sid ex tbl recs) sid j = Some row'
         \<and> r \<in> set recs \<and> job_id r = j
         \<and> student_id row' = sid \<and> row_job_id row' = j
         \<and> row_match_score row' = match_score r
         \<and> row_skill_match_pct row' = skill_match_pct r
         \<and> row_experience_match row' = experience_match r
         \<and> recommendation_reason row' = generate_reason L r
         \<and> expires_at row' = ex
         \<and> (\<forall>old. row_of tbl sid j = Some old \<longrightarrow>
               is_viewed row' = is_viewed old \<and> is_applied row' = is_applied old
               \<and> created_at row' = ts)))
   \<and> (j \<notin> job_id ` set recs \<longrightarrow>
        row_of (upsert_all L dflt ts sid ex tbl recs) sid j = row_of tbl sid j)"
proof (induction recs rule: rev_induct)
  case Nil
  show ?case by (simp add: upsert_all_def)
next
  case (snoc r recs)
  let ?t = "upsert_all L dflt ts sid ex tbl recs"
  show ?case
  proof (cases "j = job_id r")
    case True
    have key: "\<And>x. row_of tbl sid j = Some x \<Longrightarrow> student_id x = sid \<and> row_job_id x = j"
      unfolding row_of_def by (auto simp: find_Some_iff)
    have key': "\<And>x. row_of ?t sid j = Some x \<Longrightarrow> student_id x = sid \<and> row_job_id x = j"
      unfolding row_of_def by (auto simp: find_Some_iff)
    show ?thesis
    proof (cases "row_of ?t sid j")
      case None
      with snoc have "j \<notin> job_id ` set recs" and "row_of tbl sid j = None" by auto
      with None True show ?thesis
        by (auto simp: upsert_all_snoc row_of_upsert_same intro!: exI [of _ r])
    next
      case (Some x)
      have flags: "\<forall>old. row_of tbl sid j = Some old \<longrightarrow>
               is_viewed x = is_viewed old \<and> is_applied x = is_applied old"
        using snoc Some by (cases "j \<in> job_id ` set recs") auto
      from Some True key' [OF Some] flags show ?thesis
        by (auto simp: upsert_all_snoc row_of_upsert_same intro!: exI [of _ r])
    qed
  next
    case False
    then have "row_of (upsert_all L dflt ts sid ex tbl (recs @ [r])) sid j = row_of ?t sid j"
      by (simp add: upsert_all_snoc row_of_upsert_other)
    with snoc False show ?thesis by auto
  qed
qed

lemma upsert_frame:
  "filter (\<lambda>row. \<not> (student_id row = sid \<and> row_job_id row = job_id r)) (upsert dflt ts tbl sid r reason ex)
     = filter (\<lambda>row. \<not> (student_id row = sid \<and> row_job_id row = job_id r)) tbl"
  unfolding upsert_def by (auto simp: filter_map comp_def intro: filter_cong map_idI)


lemma upsert_all_frame:
  "filter (\<lambda>row. \<not> (student_id row = sid \<and> row_job_id row \<in> job_id ` set recs))
       (upsert_all L dflt ts sid ex tbl recs)
     = filter (\<lambda>row. \<not> (student_id row = sid \<and> row_job_id row \<in> job_id ` set recs)) tbl"
proof (induction recs rule: rev_induct)
  case Nil
  show ?case by (simp add: upsert_all_def)
next
  case (snoc r recs)
  let ?K = "\<lambda>row. \<not> (student_id row = sid \<and> row_job_id row \<in> job_id ` set (recs @ [r]))"
  let ?K1 = "\<lambda>row. \<not> (student_id row = sid \<and> row_job_id row = job_id r)"
  let ?K2 = "\<lambda>row. \<not> (student_id row = sid \<and> row_job_id row \<in> job_id ` set recs)"
  have split: "\<And>xs. filter ?K xs = filter ?K2 (filter ?K1 xs)"
    by (auto intro: filter_cong)
  have swap: "\<And>xs. filter ?K xs = filter ?K1 (filter ?K2 xs)"
    by (auto intro: filter_cong)
  have "filter ?K (upsert_all L dflt ts sid ex tbl (recs @ [r]))
          = filter ?K2 (filter ?K1 (upsert_all L dflt ts sid ex tbl recs))"
    unfolding upsert_all_snoc by (subst split) (simp only: upsert_frame)
  also have "\<dots> = filter ?K1 (filter ?K2 (upsert_all L dflt ts sid ex tbl recs))"
    by (auto intro: filter_cong)
  also have "\<dots> = filter ?K1 (filter ?K2 tbl)" by (simp only: snoc.IH)
  also have "\<dots> = filter ?K tbl" by (rule swap [symmetric])
  finally show ?case .
qed

lemma upsert_distinct:
  assumes "distinct (map (\<lambda>row. (student_id row, row_job_id row)) tbl)"
  shows "distinct (map (\<lambda>row. (student_id row, row_job_id row)) (upsert dflt ts tbl sid r reason ex))"
proof (cases "\<exists>row \<in> set tbl. student_id row = sid \<and> row_job_id row = job_id r")
  case True
  have "map (\<lambda>row. (student_id row, row_job_id row)) (upsert dflt ts tbl sid r reason ex)
          = map (\<lambda>row. (student_id row, row_job_id row)) tbl"
    unfolding upsert_def if_P [OF True] by (simp add: comp_def cong: if_cong)
  with assms show ?thesis by simp
next
  case False
  with assms show ?thesis
    unfolding upsert_def if_not_P [OF False] by auto
qed

lemma upsert_all_distinct:
  "distinct (map (\<lambda>row. (student_id row, row_job_id row)) tbl) \<Longrightarrow>
   distinct (map (\<lambda>row. (student_id row, row_job_id row)) (upsert_all L dflt ts sid ex tbl recs))"
  by (induction recs rule: rev_induct) (simp_all add: upsert_all_def upsert_distinct)

lemma py_int_ge: "0 < n \<Longrightarrow> n \<le> py_int x \<longleftrightarrow> of_int n \<le> x"
proof (cases "0 \<le> x")
  case True
  then show ?thesis by (simp add: py_int_def le_floor_iff)
next
  case False
  assume "0 < n"
  with False have "\<lceil>x\<rceil> < n" by (simp add: ceiling_less_iff)
  moreover from False \<open>0 < n\<close> have "\<not> of_int n \<le> x" by simp
  ultimately show ?thesis using False by (simp add: py_int_def)
qed

lemma generate_reason_template:
  "generate_reason L r =
     ''Overall match: '' @ str_int (py_int (fl L (match_score r * 100))) @ ''%. ''
     @ (if 80 \<le> skill_match_pct r then ''Excellent''
        else if 50 \<le> skill_match_pct r then ''Good'' else ''Partial'')
     @ '' skill match ('' @ str_int (py_int (skill_match_pct r)) @ ''%). ''
     @ (if experience_match r then ''Experience requirements met''
        else ''Experience slightly outside range'')
     @ ''.''"
  using py_int_ge [of 80 "skill_match_pct r"] py_int_ge [of 50 "skill_match_pct r"]
  by (simp add: generate_reason_def Let_def)

text \<open>
  C7. \<^verbatim>\<open>store_recommendations\<close> returns the number of entries of the batch. For
  every entry the table then holds a row keyed by the student and the entry's job. The
  row carries the scores and the templated reason of an entry of the batch with that
  job id (of that very entry when the job ids of the batch are distinct) and expires
  seven days after the clock reading. Where a row with the key existed before, its
  \<open>is_viewed\<close> and \<open>is_applied\<close> flags are kept and \<open>created_at\<close> is reset to the
  statement's timestamp. Rows with other keys are untouched, and a table with one row
  per key stays so. The reason names the overall percentage (the truncated product of
  the score and 100, as the double arithmetic gives it), the skill bucket (excellent
  from 80, good from 50, partial below) and whether the experience requirement is
  met.
\<close>

theorem store_recommendations_spec:
  assumes "store_recommendations L dflt utcnow ts tbl sid recs = (n, tbl')"
  shows "n = length recs
   \<and> (\<forall>r \<in> set recs. \<exists>row' r'.
         row_of tbl' sid (job_id r) = Some row'
         \<and> r' \<in> set recs \<and> job_id r' = job_id r
         \<and> (distinct (map job_id recs) \<longrightarrow> r' = r)
         \<and> student_id row' = sid \<and> row_job_id row' = job_id r
         \<and> row_match_score row' = match_score r'
         \<and> row_skill_match_pct row' = skill_match_pct r'
         \<and> row_experience_match row' = experience_match r'
         \<and> recommendation_reason row' = generate_reason L r'
         \<and> expires_at row' = utcnow + 7 * 86400
         \<and> (\<forall>old. row_of tbl sid (job_id r) = Some old \<longrightarrow>
               is_viewed row' = is_viewed old \<and> is_applied row' = is_applied old
               \<and> created_at row' = ts))
   \<and> filter (\<lambda>row. \<not> (student_id row = sid \<and> row_job_id row \<in> job_id ` set recs)) tbl'
       = filter (\<lambda>row. \<not> (student_id row = sid \<and> row_job_id row \<in> job_id ` set recs)) tbl
   \<and> (distinct (map (\<lambda>row. (student_id row, row_job_id row)) tbl) \<longrightarrow>
        distinct (map (\<lambda>row. (student_id row, row_job_id row)) tbl'))
   \<and> (\<forall>r. generate_reason L r =
         ''Overall match: '' @ str_int (py_int (fl L (match_score r * 100))) @ ''%. ''
         @ (if 80 \<le> skill_match_pct r then ''Excellent''
            else if 50 \<le> skill_match_pct r then ''Good'' else ''Partial'')
         @ '' skill match ('' @ str_int (py_int (skill_match_pct r)) @ ''%). ''
         @ (if experience_match r then ''Experience requirements met''
            else ''Experience slightly outside range'')
         @ ''.'')"
proof -
  let ?ex = "utcnow + 604800"
  from assms have n: "n = length recs" and t: "tbl' = upsert_all L dflt ts sid ?ex tbl recs"
    by (simp_all add: store_recommendations_eq)
  have rows: "\<exists>row' r'.
         row_of tbl' sid (job_id r) = Some row'
         \<and> r' \<in> set recs \<and> job_id r' = job_id r
         \<and> (distinct (map job_id recs) \<longrightarrow> r' = r)
         \<and> student_id row' = sid \<and> row_job_id row' = job_id r
         \<and> row_match_score row' = match_score r'
         \<and> row_skill_match_pct row' = skill_match_pct r'
         \<and> row_experience_match row' = experience_match r'
         \<and> recommendation_reason row' = generate_reason L r'
         \<and> expires_at row' = utcnow + 7 * 86400
         \<and> (\<forall>old. row_of tbl sid (job_id r) = Some old \<longrightarrow>
               is_viewed row' = is_viewed old \<and> is_applied row' = is_applied old
               \<and> created_at row' = ts)" if r: "r \<in> set recs" for r
  proof -
    from r have "job_id r \<in> job_id ` set recs" by simp
    with upsert_all_rows [of "job_id r" recs L dflt ts sid ?ex tbl]
    obtain row' r' where h: "row_of tbl' sid (job_id r) = Some row'" "r' \<in> set recs"
      "job_id r' = job_id r" "student_id row' = sid" "row_job_id row' = job_id r"
      "row_match_score row' = match_score r'" "row_skill_match_pct row' = skill_match_pct r'"
      "row_experience_match row' = experience_match r'"
      "recommendation_reason row' = generate_reason L r'" "expires_at row' = ?ex"
      "\<forall>old. row_of tbl sid (job_id r) = Some old \<longrightarrow>
               is_viewed row' = is_viewed old \<and> is_applied row' = is_applied old
               \<and> created_at row' = ts"
      unfolding t by blast
    have "distinct (map job_id recs) \<longrightarrow> r' = r"
      using h(2,3) r by (auto simp: distinct_map dest: inj_onD)
    with h show ?thesis by auto
  qed
  show ?thesis
    using n rows upsert_all_frame [of sid recs L dflt ts ?ex tbl]
      upsert_all_distinct [of tbl L dflt ts sid ?ex recs] generate_reason_template
    unfolding t by blast
qed

text \<open>
  C10. \<^verbatim>\<open>mark_recommendation_viewed\<close> and \<^verbatim>\<open>mark_recommendation_applied\<close>
  return true exactly when a row with the given student and job exists. In a matching
  row the former sets \<open>is_viewed\<close> and the latter \<open>is_applied\<close>, and restoring the
  old flag gives back the old row; every other row is unchanged, as are the number and
  order of the rows. Scores, reason, expiry and the other flag are those of the old
  row. Calling either operation again returns the same result and leaves the table as
  the first call left it.
\<close>

theorem mark_recommendation_spec:
  assumes "mark_recommendation_viewed tbl sid jid = (bv, tv)"
    and "mark_recommendation_applied tbl sid jid = (ba, ta)"
  shows "(bv \<longleftrightarrow> (\<exists>row \<in> set tbl. student_id row = sid \<and> row_job_id row = jid))
   \<and> (ba \<longleftrightarrow> (\<exists>row \<in> set tbl. student_id row = sid \<and> row_job_id row = jid))
   \<and> length tv = length tbl \<and> length ta = length tbl
   \<and> (\<forall>i < length tbl.
        if student_id (tbl ! i) = sid \<and> row_job_id (tbl ! i) = jid
        then is_viewed (tv ! i) \<and> (tv ! i)\<lparr>is_viewed := is_viewed (tbl ! i)\<rparr> = tbl ! i
           \<and> is_applied (ta ! i) \<and> (ta ! i)\<lparr>is_applied := is_applied (tbl ! i)\<rparr> = tbl ! i
        else tv ! i = tbl ! i \<and> ta ! i = tbl ! i)
   \<and> (\<forall>i < length tbl.
        row_match_score (tv ! i) = row_match_score (tbl ! i)
        \<and> row_skill_match_pct (tv ! i) = row_skill_match_pct (tbl ! i)
        \<and> row_experience_match (tv ! i) = row_experience_match (tbl ! i)
        \<and> recommendation_reason (tv ! i) = recommendation_reason (tbl ! i)
        \<and> expires_at (tv ! i) = expires_at (tbl ! i)
        \<and> is_applied (tv ! i) = is_applied (tbl ! i)
        \<and> row_match_score (ta ! i) = row_match_score (tbl ! i)
        \<and> row_skill_match_pct (ta ! i) = row_skill_match_pct (tbl ! i)
        \<and> row_experience_match (ta ! i) = row_experience_match (tbl ! i)
        \<and> recommendation_reason (ta ! i) = recommendation_reason (tbl ! i)
        \<and> expires_at (ta ! i) = expires_at (tbl ! i)
        \<and> is_viewed (ta ! i) = is_viewed (tbl ! i))
   \<and> mark_recommendation_viewed tv sid jid = (bv, tv)
   \<and> mark_recommendation_applied ta sid jid = (ba, ta)"
proof -
  let ?m = "\<lambda>row. student_id row = sid \<and> row_job_id row = jid"
  from assms have bv: "bv = (0 < length (filter ?m tbl))"
    and tv: "tv = map (\<lambda>row. if ?m row then row\<lparr>is_viewed := True\<rparr> else row) tbl"
    and ba: "ba = (0 < length (filter ?m tbl))"
    and ta: "ta = map (\<lambda>row. if ?m row then row\<lparr>is_applied := True\<rparr> else row) tbl"
    by (auto simp: mark_recommendation_viewed_def mark_recommendation_applied_def)
  have fv: "filter ?m tv = map (\<lambda>row. row\<lparr>is_viewed := True\<rparr>) (filter ?m tbl)"
    unfolding tv by (induction tbl) auto
  have fa: "filter ?m ta = map (\<lambda>row. row\<lparr>is_applied := True\<rparr>) (filter ?m tbl)"
    unfolding ta by (induction tbl) auto
  have idv: "map (\<lambda>row. if ?m row then row\<lparr>is_viewed := True\<rparr> else row) tv = tv"
    unfolding tv by (induction tbl) auto
  have ida: "map (\<lambda>row. if ?m row then row\<lparr>is_applied := True\<rparr> else row) ta = ta"
    unfolding ta by (induction tbl) auto
  have again_v: "mark_recommendation_viewed tv sid jid = (bv, tv)"
    by (simp add: mark_recommendation_viewed_def fv idv bv)
  have again_a: "mark_recommendation_applied ta sid jid = (ba, ta)"
    by (simp add: mark_recommendation_applied_def fa ida ba)
  have exb: "bv \<longleftrightarrow> (\<exists>row \<in> set tbl. ?m row)" "ba \<longleftrightarrow> (\<exists>row \<in> set tbl. ?m row)"
    unfolding bv ba by (auto simp: filter_empty_conv)
  have lens: "length tv = length tbl" "length ta = length tbl"
    by (simp_all add: tv ta)
  have rows: "\<forall>i < length tbl.
        if student_id (tbl ! i) = sid \<and> row_job_id (tbl ! i) = jid
        then is_viewed (tv ! i) \<and> (tv ! i)\<lparr>is_viewed := is_viewed (tbl ! i)\<rparr> = tbl ! i
           \<and> is_applied (ta ! i) \<and> (ta ! i)\<lparr>is_applied := is_applied (tbl ! i)\<rparr> = tbl ! i
        else tv ! i = tbl ! i \<and> ta ! i = tbl ! i"
    by (simp add: tv ta)
  have cols: "\<forall>i < length tbl.
        row_match_score (tv ! i) = row_match_score (tbl ! i)
        \<and> row_skill_match_pct (tv ! i) = row_skill_match_pct (tbl ! i)
        \<and> row_experience_match (tv ! i) = row_experience_match (tbl ! i)
        \<and> recommendation_reason (tv ! i) = recommendation_reason (tbl ! i)
        \<and> expires_at (tv ! i) = expires_at (tbl ! i)
        \<and> is_applied (tv ! i) = is_applied (tbl ! i)
        \<and> row_match_score (ta ! i) = row_match_score (tbl ! i)
        \<and> row_skill_match_pct (ta ! i) = row_skill_match_pct (tbl ! i)
        \<and> row_experience_match (ta ! i) = row_experience_match (tbl ! i)
        \<and> recommendation_reason (ta ! i) = recommendation_reason (tbl ! i)
        \<and> expires_at (ta ! i) = expires_at (tbl ! i)
        \<and> is_viewed (ta ! i) = is_viewed (tbl ! i)"
    by (simp add: tv ta)
  from exb lens rows cols again_v again_a show ?thesis by blast
qed

theorem store_recommendations_spec_witness:
  "fst (store_recommendations example_lib example_row 100 105 [example_row] 1 [example_rec]) = 1
   \<and> (\<exists>row'. row_of (snd (store_recommendations example_lib example_row 100 105 [example_row] 1 [example_rec])) 1 2
                  = Some row'
          \<and> row_match_score row' = 4 / 5 \<and> expires_at row' = 604900
          \<and> is_viewed row' \<and> \<not> is_applied row' \<and> created_at row' = 105)"
proof -
  have old: "row_of [example_row] 1 2 = Some example_row"
    by (simp add: row_of_def example_row_def)
  have "store_recommendations example_lib example_row 100 105 [example_row] 1 [example_rec]
          = (fst (store_recommendations example_lib example_row 100 105 [example_row] 1 [example_rec]),
             snd (store_recommendations example_lib example_row 100 105 [example_row] 1 [example_rec]))"
    by simp
  from store_recommendations_spec [OF this] old show ?thesis
    by (auto simp: example_rec_def example_row_def)
qed

theorem mark_recommendation_spec_witness:
  "mark_recommendation_viewed [example_row\<lparr>is_viewed := False\<rparr>] 1 2 = (True, [example_row])
   \<and> mark_recommendation_viewed [example_row] 1 2 = (True, [example_row])
   \<and> mark_recommendation_applied [example_row\<lparr>is_viewed := False\<rparr>] 1 2
       = (True, [example_row\<lparr>is_viewed := False, is_applied := True\<rparr>])"
proof -
  have v: "mark_recommendation_viewed [example_row\<lparr>is_viewed := False\<rparr>] 1 2 = (True, [example_row])"
    by (simp add: mark_recommendation_viewed_def example_row_def)
  have a: "mark_recommendation_applied [example_row\<lparr>is_viewed := False\<rparr>] 1 2
             = (True, [example_row\<lparr>is_viewed := False, is_applied := True\<rparr>])"
    by (simp add: mark_recommendation_applied_def example_row_def)
  from mark_recommendation_spec [OF v a] v a show ?thesis by simp
qed

section \<open>Properties of the recommendation engine\<close>

lemma same_view_refl: "same_view L st st"
  by (simp add: same_view_def)

lemma same_view_trans: "same_view L a b \<Longrightarrow> same_view L b c \<Longrightarrow> same_view L a c"
  by (simp add: same_view_def)

lemma truthy_Some [simp]: "truthy (Some xs) \<longleftrightarrow> xs \<noteq> []"
  by (simp add: truthy_def)

lemma truthy_None [simp]: "\<not> truthy None"
  by (simp add: truthy_def)

lemma get_embedding_store:
  "get_embedding (store_embedding st t i emb h) t' i' =
     (if t' = t \<and> i' = i then Some emb else get_embedding st t' i')"
  by (simp add: get_embedding_def store_embedding_def)

lemma store_embedding_docs [simp]:
  "parsed_resumes (store_embedding st t i emb h) = parsed_resumes st"
  "parsed_jds (store_embedding st t i emb h) = parsed_jds st"
  "jobs (store_embedding st t i emb h) = jobs st"
  "get_by_job (store_embedding st t i emb h) = get_by_job st"
  "get_by_student (store_embedding st t i emb h) = get_by_student st"
  by (simp_all add: store_embedding_def get_by_job_def get_by_student_def fun_eq_iff)

lemma get_job_embedding_view: "same_view L st (snd (get_job_embedding L st j False))"
  unfolding same_view_def
  by (auto simp: get_job_embedding_def get_student_embedding_def get_embedding_store Let_def
      split: option.splits)

lemma get_student_embedding_view: "same_view L st (snd (get_student_embedding L st s False))"
  unfolding same_view_def
  by (auto simp: get_job_embedding_def get_student_embedding_def get_embedding_store Let_def
      split: option.splits)

lemma same_view_sym: "same_view L a b \<Longrightarrow> same_view L b a"
  by (simp add: same_view_def)

lemma score_job_snd:
  "snd (score_job L st se sk ex job) = snd (get_job_embedding L st (jobs_job_id job) False)"
  by (simp add: score_job_def split: prod.splits)

lemma score_job_fst:
  "fst (score_job L st se sk ex job) =
     score_entry L se sk ex job (fst (get_job_embedding L st (jobs_job_id job) False))
       (get_by_job st (jobs_job_id job))"
proof -
  have "parsed_jds (snd (get_job_embedding L st (jobs_job_id job) False)) = parsed_jds st"
    using get_job_embedding_view [of L st "jobs_job_id job"] by (simp add: same_view_def)
  then show ?thesis
    by (cases "get_job_embedding L st (jobs_job_id job) False")
       (simp add: score_job_def get_by_job_def)
qed

lemma score_job_view: "same_view L st (snd (score_job L st se sk ex job))"
  by (simp add: score_job_snd get_job_embedding_view)

lemma score_job_cong:
  "same_view L st st' \<Longrightarrow> fst (score_job L st' se sk ex job) = fst (score_job L st se sk ex job)"
  by (simp add: score_job_fst same_view_def get_by_job_def)

lemma score_jobs_step:
  "score_jobs L st se sk ex ms (job # js) recs =
     (case fst (score_job L st se sk ex job) of
        Inl e \<Rightarrow> (Inl e, snd (score_job L st se sk ex job))
      | Inr None \<Rightarrow> score_jobs L (snd (score_job L st se sk ex job)) se sk ex ms js recs
      | Inr (Some cr) \<Rightarrow>
          score_jobs L (snd (score_job L st se sk ex job)) se sk ex ms js
            (if ms \<le> fst cr then recs @ [snd cr] else recs))"
  by (cases "score_job L st se sk ex job") (auto split: sum.splits option.splits)

declare score_jobs.simps(2) [simp del]

lemma score_jobs_view: "same_view L st (snd (score_jobs L st se sk ex ms js recs))"
proof (induction js arbitrary: st recs)
  case Nil
  show ?case by (simp add: same_view_refl)
next
  case (Cons job js)
  note v = score_job_view [of L st se sk ex job]
  show ?case
    unfolding score_jobs_step
    by (auto split: sum.splits option.splits intro: v same_view_trans [OF v Cons.IH])
qed

lemma score_jobs_cong:
  "same_view L st st' \<Longrightarrow>
   fst (score_jobs L st' se sk ex ms js recs) = fst (score_jobs L st se sk ex ms js recs)"
proof (induction js arbitrary: st st' recs)
  case Nil
  show ?case by simp
next
  case (Cons job js)
  have eq: "fst (score_job L st' se sk ex job) = fst (score_job L st se sk ex job)"
    by (rule score_job_cong [OF Cons.prems])
  have v: "same_view L (snd (score_job L st se sk ex job)) (snd (score_job L st' se sk ex job))"
    by (rule same_view_trans [OF same_view_trans [OF same_view_sym [OF score_job_view] Cons.prems]
          score_job_view])
  show ?case
    unfolding score_jobs_step eq
    by (auto split: sum.splits option.splits simp: Cons.IH [OF v])
qed

lemma scored_entries_Cons:
  "scored_entries L st se sk ex (job # js) =
     (case fst (score_job L st se sk ex job) of Inr (Some cr) \<Rightarrow> [cr] | _ \<Rightarrow> [])
     @ scored_entries L st se sk ex js"
  by (simp add: scored_entries_def)

lemma score_jobs_kept:
  "same_view L st0 st \<Longrightarrow> fst (score_jobs L st se sk ex ms js recs) = Inr out \<Longrightarrow>
   out = recs @ kept_entries L st0 se sk ex ms js"
proof (induction js arbitrary: st recs)
  case Nil
  then show ?case by (simp add: kept_entries_def scored_entries_def)
next
  case (Cons job js)
  have eq: "fst (score_job L st se sk ex job) = fst (score_job L st0 se sk ex job)"
    by (rule score_job_cong [OF Cons.prems(1)])
  have v: "same_view L st0 (snd (score_job L st se sk ex job))"
    by (rule same_view_trans [OF Cons.prems(1) score_job_view])
  show ?case
  proof (cases "fst (score_job L st0 se sk ex job)")
    case (Inl e)
    with Cons.prems(2) eq show ?thesis by (simp add: score_jobs_step)
  next
    case (Inr x)
    show ?thesis
    proof (cases x)
      case None
      with Inr Cons.prems(2) eq
      have "fst (score_jobs L (snd (score_job L st se sk ex job)) se sk ex ms js recs) = Inr out"
        by (simp add: score_jobs_step)
      from Cons.IH [OF v this] Inr None show ?thesis
        by (simp add: kept_entries_def scored_entries_Cons)
    next
      case (Some cr)
      with Inr Cons.prems(2) eq
      have "fst (score_jobs L (snd (score_job L st se sk ex job)) se sk ex ms js
                   (if ms \<le> fst cr then recs @ [snd cr] else recs)) = Inr out"
        by (simp add: score_jobs_step)
      from Cons.IH [OF v this] Inr Some show ?thesis
        by (simp add: kept_entries_def scored_entries_Cons)
    qed
  qed
qed

lemma same_view_docs:
  assumes "same_view L st st'"
  shows "get_by_student st' = get_by_student st" "get_by_job st' = get_by_job st"
    "open_jobs_of st' = open_jobs_of st"
  using assms by (simp_all add: same_view_def get_by_student_def get_by_job_def open_jobs_of_def fun_eq_iff)

lemma generate_fst:
  "fst (generate_recommendations L st sid top_n ms) =
     (if \<not> truthy (fst (get_student_embedding L st sid False)) then Inr []
      else case get_by_student st sid of
             None \<Rightarrow> Inr []
           | Some d \<Rightarrow>
               (case fst (score_jobs L st (the (fst (get_student_embedding L st sid False)))
                            (doc_skills d) (doc_experience d) ms (open_jobs_of st) []) of
                  Inl e \<Rightarrow> Inl e
                | Inr recs \<Rightarrow> Inr (slice_to (sort_by_score recs) top_n)))"
proof -
  obtain se st1 where g: "get_student_embedding L st sid False = (se, st1)"
    by (cases "get_student_embedding L st sid False")
  have v: "same_view L st st1"
    using get_student_embedding_view [of L st sid] g by simp
  note d = same_view_docs [OF v]
  have c: "\<And>a b c. fst (score_jobs L st1 a b c ms (open_jobs_of st) [])
                    = fst (score_jobs L st a b c ms (open_jobs_of st) [])"
    by (rule score_jobs_cong [OF v])
  show ?thesis
  proof (cases "truthy se")
    case False
    with g show ?thesis by (simp add: generate_recommendations_def)
  next
    case True
    show ?thesis
    proof (cases "get_by_student st sid")
      case None
      with g True d show ?thesis by (simp add: generate_recommendations_def)
    next
      case (Some doc)
      obtain res st2 where sj: "score_jobs L st1 (the se) (doc_skills doc) (doc_experience doc) ms
                                  (open_jobs_of st) [] = (res, st2)"
        by (cases "score_jobs L st1 (the se) (doc_skills doc) (doc_experience doc) ms (open_jobs_of st) []")
      from c [of "the se" "doc_skills doc" "doc_experience doc"] sj
      have r: "fst (score_jobs L st (the se) (doc_skills doc) (doc_experience doc) ms
                      (open_jobs_of st) []) = res" by simp
      from g True Some d sj r show ?thesis
        by (cases res)
           (simp_all add: generate_recommendations_def doc_skills_def doc_experience_def Let_def)
    qed
  qed
qed

lemma generate_view: "same_view L st (snd (generate_recommendations L st sid top_n ms))"
proof -
  obtain se st1 where g: "get_student_embedding L st sid False = (se, st1)"
    by (cases "get_student_embedding L st sid False")
  have v: "same_view L st st1"
    using get_student_embedding_view [of L st sid] g by simp
  have v2: "\<And>a b c js. same_view L st (snd (score_jobs L st1 a b c ms js []))"
    by (rule same_view_trans [OF v score_jobs_view])
  show ?thesis
    using g v v2
    by (auto simp: generate_recommendations_def Let_def split: option.splits prod.splits sum.splits)
       (metis snd_conv)+
qed

lemma generate_cong:
  assumes "same_view L st st'"
  shows "fst (generate_recommendations L st' sid top_n ms)
           = fst (generate_recommendations L st sid top_n ms)"
proof -
  have s: "fst (get_student_embedding L st' sid False) = fst (get_student_embedding L st sid False)"
    using assms by (simp add: same_view_def)
  show ?thesis
    unfolding generate_fst s same_view_docs [OF assms] score_jobs_cong [OF assms] ..
qed

text \<open>
  C9. The projection is a function of the feature text alone (and of the digest
  function): it reads no store. Hence a second call of
  \<^verbatim>\<open>generate_recommendations\<close> on the stores as the first call left them, in
  which no one else has changed the cache, returns the same result as the first, and
  every job and student resolves to the same embedding after the call as before it.
\<close>

theorem generate_recommendations_idempotent:
  "fst (generate_recommendations L (snd (generate_recommendations L st sid top_n ms)) sid top_n ms)
     = fst (generate_recommendations L st sid top_n ms)
   \<and> (\<forall>j. fst (get_job_embedding L (snd (generate_recommendations L st sid top_n ms)) j False)
            = fst (get_job_embedding L st j False))
   \<and> (\<forall>s. fst (get_student_embedding L (snd (generate_recommendations L st sid top_n ms)) s False)
            = fst (get_student_embedding L st s False))"
  using generate_cong [OF generate_view] generate_view [of L st sid top_n ms]
  by (simp add: same_view_def)

text \<open>
  C8. When the candidate's embedding cannot be resolved, or no parsed resume exists
  for the candidate, or no job is open, \<^verbatim>\<open>generate_recommendations\<close> returns
  the empty list and raises nothing.
\<close>

theorem generate_recommendations_empty:
  "\<not> truthy (fst (get_student_embedding L st sid False))
     \<or> get_by_student st sid = None \<or> open_jobs_of st = []
   \<Longrightarrow> fst (generate_recommendations L st sid top_n ms) = Inr []"
  by (auto simp: generate_fst sort_by_score_def slice_to_def split: option.splits)

subsection \<open>Exact arithmetic\<close>

lemma float_cosine_similarity_exact:
  "exact_arithmetic L \<Longrightarrow> float_cosine_similarity L a b = cosine_similarity a b"
  by (simp add: exact_arithmetic_def float_cosine_similarity_def cosine_similarity_def Let_def)

lemma float_skill_match_percentage_exact:
  "exact_arithmetic L \<Longrightarrow>
   float_skill_match_percentage L cs rs = compute_skill_match_percentage cs rs"
  by (simp add: exact_arithmetic_def float_skill_match_percentage_def
        compute_skill_match_percentage_def Let_def)

lemma float_combined_score_exact:
  "exact_arithmetic L \<Longrightarrow> float_combined_score L m p e = combined_score m p e"
  by (simp add: exact_arithmetic_def float_combined_score_def combined_score_def)

lemma float_round_exact: "exact_arithmetic L \<Longrightarrow> float_round L x n = py_round x n"
  by (simp add: exact_arithmetic_def float_round_def)

subsection \<open>The example data\<close>

lemma ex_exact: "exact_arithmetic example_lib"
  by (simp add: exact_arithmetic_def example_lib_def)

lemma ex_fl: "fl example_lib x = x"
  by (simp add: example_lib_def)

lemmas ex_float_cosine = float_cosine_similarity_exact [OF ex_exact]

lemmas ex_float_combined = float_combined_score_exact [OF ex_exact]

lemmas ex_float_round = float_round_exact [OF ex_exact]

lemma sqrt_20201: "sqrt 408080401 = 20201"
  using real_sqrt_abs [of 20201] by simp

lemma ex_student: "get_student_embedding example_lib example_stores 1 False = (Some [1, 0], example_stores)"
  by (simp add: get_student_embedding_def get_embedding_def example_stores_def)

lemma ex_job10: "get_job_embedding example_lib example_stores 10 False = (Some [20200, 201], example_stores)"
  by (simp add: get_job_embedding_def get_embedding_def example_stores_def)

lemma ex_job11: "get_job_embedding example_lib example_stores 11 False = (Some [1, 0], example_stores)"
  by (simp add: get_job_embedding_def get_embedding_def example_stores_def)

lemma ex_job12: "get_job_embedding example_lib example_stores 12 False = (Some [0, 1], example_stores)"
  by (simp add: get_job_embedding_def get_embedding_def example_stores_def)

lemma ex_cos10: "cosine_similarity [1, 0] [20200, 201] = Inr (20200 / 20201)"
  by (simp add: cosine_similarity_def dot_def linalg_norm_def sqrt_20201)

lemma ex_cos11: "cosine_similarity [1, 0] [1, 0] = Inr 1"
  by (simp add: cosine_similarity_def dot_def linalg_norm_def)

lemma ex_cos12: "cosine_similarity [1, 0] [0, 1] = Inr 0"
  by (simp add: cosine_similarity_def dot_def linalg_norm_def)

lemma ex_round_a: "py_round (323211 / 404020) 4 = 4 / 5"
  by (simp add: py_round_def round_half_even_def Let_def)

lemma ex_round_b: "py_round (4 / 5) 4 = 4 / 5"
  by (simp add: py_round_def round_half_even_def Let_def)

lemma ex_round_c: "py_round 50 2 = 50"
  by (simp add: py_round_def round_half_even_def Let_def)

lemma ex_round_d: "py_round (40401 / 40402) 4 = 1"
  by (simp add: py_round_def round_half_even_def Let_def)

lemma ex_round_e: "py_round 1 4 = 1"
  by (simp add: py_round_def round_half_even_def Let_def)

lemma ex_round_f: "py_round (11 / 20) 4 = 11 / 20"
  by (simp add: py_round_def round_half_even_def Let_def)

lemma ex_round_g: "py_round (1 / 2) 4 = 1 / 2"
  by (simp add: py_round_def round_half_even_def Let_def)

lemma ex_open: "open_jobs_of example_stores = jobs example_stores"
  by (simp add: open_jobs_of_def example_stores_def)

lemma ex_doc: "get_by_student example_stores 1 = Some \<lparr>parsed_data = Some example_resume\<rparr>"
  by (simp add: get_by_student_def example_stores_def)

lemma ex_jd: "get_by_job example_stores j = None"
  by (simp add: get_by_job_def example_stores_def)

lemma ex_doc_fields:
  "doc_skills \<lparr>parsed_data = Some example_resume\<rparr> = [''Python'']"
  "doc_experience \<lparr>parsed_data = Some example_resume\<rparr> = 1"
  by (simp_all add: doc_skills_def doc_experience_def example_resume_def get_or_def)

lemma ex_score10:
  "fst (score_job example_lib example_stores [1, 0] [''Python''] 1
          \<lparr>jobs_job_id = 10, jobs_title = ''Analyst'', jobs_company_id = 1, jobs_min_experience = 0,
           jobs_max_experience = None, jobs_status = ''open''\<rparr>)
     = Inr (Some (323211 / 404020,
         \<lparr>job_id = 10, job_title = ''Analyst'', match_score = 4 / 5, skill_match_pct = 50,
            experience_match = True, embedding_similarity = 1\<rparr>))"
  by (simp add: score_job_fst ex_job10 ex_jd score_entry_def ex_float_cosine ex_cos10
        ex_float_combined combined_score_def ex_float_round ex_fl ex_round_a ex_round_c ex_round_d Let_def)

lemma ex_store10:
  "snd (score_job example_lib example_stores [1, 0] [''Python''] 1
          \<lparr>jobs_job_id = 10, jobs_title = ''Analyst'', jobs_company_id = 1, jobs_min_experience = 0,
           jobs_max_experience = None, jobs_status = ''open''\<rparr>) = example_stores"
  by (simp add: score_job_snd ex_job10)

lemma ex_score11:
  "fst (score_job example_lib example_stores [1, 0] [''Python''] 1
          \<lparr>jobs_job_id = 11, jobs_title = ''Engineer'', jobs_company_id = 1, jobs_min_experience = 0,
           jobs_max_experience = None, jobs_status = ''open''\<rparr>)
     = Inr (Some (4 / 5,
         \<lparr>job_id = 11, job_title = ''Engineer'', match_score = 4 / 5, skill_match_pct = 50,
            experience_match = True, embedding_similarity = 1\<rparr>))"
  by (simp add: score_job_fst ex_job11 ex_jd score_entry_def ex_float_cosine ex_cos11
        ex_float_combined combined_score_def ex_float_round ex_fl ex_round_b ex_round_c ex_round_e Let_def)

lemma ex_store11:
  "snd (score_job example_lib example_stores [1, 0] [''Python''] 1
          \<lparr>jobs_job_id = 11, jobs_title = ''Engineer'', jobs_company_id = 1, jobs_min_experience = 0,
           jobs_max_experience = None, jobs_status = ''open''\<rparr>) = example_stores"
  by (simp add: score_job_snd ex_job11)

lemma ex_score12:
  "fst (score_job example_lib example_stores [1, 0] [''Python''] 1
          \<lparr>jobs_job_id = 12, jobs_title = ''Tester'', jobs_company_id = 1, jobs_min_experience = 0,
           jobs_max_experience = None, jobs_status = ''open''\<rparr>)
     = Inr (Some (11 / 20,
         \<lparr>job_id = 12, job_title = ''Tester'', match_score = 11 / 20, skill_match_pct = 50,
            experience_match = True, embedding_similarity = 1 / 2\<rparr>))"
  by (simp add: score_job_fst ex_job12 ex_jd score_entry_def ex_float_cosine ex_cos12
        ex_float_combined combined_score_def ex_float_round ex_fl ex_round_f ex_round_c ex_round_g Let_def)

lemma ex_store12:
  "snd (score_job example_lib example_stores [1, 0] [''Python''] 1
          \<lparr>jobs_job_id = 12, jobs_title = ''Tester'', jobs_company_id = 1, jobs_min_experience = 0,
           jobs_max_experience = None, jobs_status = ''open''\<rparr>) = example_stores"
  by (simp add: score_job_snd ex_job12)

lemma ex_jobs:
  "jobs example_stores =
     [\<lparr>jobs_job_id = 10, jobs_title = ''Analyst'', jobs_company_id = 1, jobs_min_experience = 0,
           jobs_max_experience = None, jobs_status = ''open''\<rparr>,
      \<lparr>jobs_job_id = 11, jobs_title = ''Engineer'', jobs_company_id = 1, jobs_min_experience = 0,
           jobs_max_experience = None, jobs_status = ''open''\<rparr>,
      \<lparr>jobs_job_id = 12, jobs_title = ''Tester'', jobs_company_id = 1, jobs_min_experience = 0,
           jobs_max_experience = None, jobs_status = ''open''\<rparr>]"
  by (simp add: example_stores_def)

lemma ex_scored:
  "scored_entries example_lib example_stores [1, 0] [''Python''] 1 (open_jobs_of example_stores)
     = [(323211 / 404020,
         \<lparr>job_id = 10, job_title = ''Analyst'', match_score = 4 / 5, skill_match_pct = 50,
            experience_match = True, embedding_similarity = 1\<rparr>),
        (4 / 5,
         \<lparr>job_id = 11, job_title = ''Engineer'', match_score = 4 / 5, skill_match_pct = 50,
            experience_match = True, embedding_similarity = 1\<rparr>),
        (11 / 20,
         \<lparr>job_id = 12, job_title = ''Tester'', match_score = 11 / 20, skill_match_pct = 50,
            experience_match = True, embedding_similarity = 1 / 2\<rparr>)]"
  unfolding ex_open ex_jobs by (simp add: scored_entries_def ex_score10 ex_score11 ex_score12)

lemma ex_loop:
  "fst (score_jobs example_lib example_stores [1, 0] [''Python''] 1 (3 / 10)
          (open_jobs_of example_stores) [])
     = Inr [\<lparr>job_id = 10, job_title = ''Analyst'', match_score = 4 / 5, skill_match_pct = 50,
            experience_match = True, embedding_similarity = 1\<rparr>,
           \<lparr>job_id = 11, job_title = ''Engineer'', match_score = 4 / 5, skill_match_pct = 50,
            experience_match = True, embedding_similarity = 1\<rparr>,
           \<lparr>job_id = 12, job_title = ''Tester'', match_score = 11 / 20, skill_match_pct = 50,
            experience_match = True, embedding_similarity = 1 / 2\<rparr>]"
  unfolding ex_open ex_jobs
  by (simp add: score_jobs_step ex_score10 ex_score11 ex_score12 ex_store10 ex_store11 ex_store12)


lemma ex_generate:
  "fst (generate_recommendations example_lib example_stores 1 10 (3 / 10))
     = Inr [\<lparr>job_id = 10, job_title = ''Analyst'', match_score = 4 / 5, skill_match_pct = 50,
            experience_match = True, embedding_similarity = 1\<rparr>,
           \<lparr>job_id = 11, job_title = ''Engineer'', match_score = 4 / 5, skill_match_pct = 50,
            experience_match = True, embedding_similarity = 1\<rparr>,
           \<lparr>job_id = 12, job_title = ''Tester'', match_score = 11 / 20, skill_match_pct = 50,
            experience_match = True, embedding_similarity = 1 / 2\<rparr>]"
  by (simp add: generate_fst ex_student ex_doc ex_doc_fields ex_loop
        sort_by_score_def slice_to_def)


lemma ex_cache:
  "get_embedding example_stores ''student'' 1 = Some [1, 0]"
  "get_embedding example_stores ''job'' 10 = Some [20200, 201]"
  "get_embedding example_stores ''job'' 12 = Some [0, 1]"
  "get_embedding example_stores ''job'' 13 = None"
  by (simp_all add: get_embedding_def example_stores_def)

text \<open>
  C2 as stated fails. Of three open jobs, the first two have the combined scores
  323211/404020 and 4/5, both at least the threshold 0.3 and both rounded to 0.8, and
  the result lists the job with the smaller combined score first. The third job's
  vector has cosine similarity 0 with the candidate's, and its entry carries 1/2 as
  the embedding similarity.
\<close>

theorem generate_recommendations_order_counterexample:
  "fst (generate_recommendations example_lib example_stores 1 10 (3 / 10))
     = Inr [\<lparr>job_id = 10, job_title = ''Analyst'', match_score = 4 / 5, skill_match_pct = 50,
            experience_match = True, embedding_similarity = 1\<rparr>,
           \<lparr>job_id = 11, job_title = ''Engineer'', match_score = 4 / 5, skill_match_pct = 50,
            experience_match = True, embedding_similarity = 1\<rparr>,
           \<lparr>job_id = 12, job_title = ''Tester'', match_score = 11 / 20, skill_match_pct = 50,
            experience_match = True, embedding_similarity = 1 / 2\<rparr>]
   \<and> scored_entries example_lib example_stores [1, 0] [''Python''] 1 (open_jobs_of example_stores)
       = [(323211 / 404020,
           \<lparr>job_id = 10, job_title = ''Analyst'', match_score = 4 / 5, skill_match_pct = 50,
            experience_match = True, embedding_similarity = 1\<rparr>),
          (4 / 5,
           \<lparr>job_id = 11, job_title = ''Engineer'', match_score = 4 / 5, skill_match_pct = 50,
            experience_match = True, embedding_similarity = 1\<rparr>),
          (11 / 20,
           \<lparr>job_id = 12, job_title = ''Tester'', match_score = 11 / 20, skill_match_pct = 50,
            experience_match = True, embedding_similarity = 1 / 2\<rparr>)]
   \<and> (323211 / 404020 :: real) < 4 / 5
   \<and> get_embedding example_stores ''student'' 1 = Some [1, 0]
   \<and> get_embedding example_stores ''job'' 12 = Some [0, 1]
   \<and> cosine_similarity [1, 0] [0, 1] = Inr 0"
  by (simp add: ex_generate ex_scored ex_cache ex_cos12)

lemma score_jobs_no_error:
  "same_view L st0 st \<Longrightarrow> fst (score_jobs L st se sk ex ms js recs) = Inr out \<Longrightarrow>
   job \<in> set js \<Longrightarrow> \<not> isl (fst (score_job L st0 se sk ex job))"
proof (induction js arbitrary: st recs)
  case Nil
  then show ?case by simp
next
  case (Cons j js)
  have eq: "fst (score_job L st se sk ex j) = fst (score_job L st0 se sk ex j)"
    by (rule score_job_cong [OF Cons.prems(1)])
  have v: "same_view L st0 (snd (score_job L st se sk ex j))"
    by (rule same_view_trans [OF Cons.prems(1) score_job_view])
  show ?case
  proof (cases "fst (score_job L st0 se sk ex j)")
    case (Inl e)
    with Cons.prems(2) eq show ?thesis by (simp add: score_jobs_step)
  next
    case (Inr x)
    from Inr Cons.prems(2) eq obtain recs' where
      "fst (score_jobs L (snd (score_job L st se sk ex j)) se sk ex ms js recs') = Inr out"
      by (cases x) (auto simp: score_jobs_step)
    from Cons.IH [OF v this] Cons.prems(3) Inr show ?thesis by auto
  qed
qed

lemma scored_entries_Nil: "scored_entries L st se sk ex [] = []"
  by (simp add: scored_entries_def)

lemma scored_entries_mem:
  "cr \<in> set (scored_entries L st se sk ex js) \<longleftrightarrow>
     (\<exists>job \<in> set js. fst (score_job L st se sk ex job) = Inr (Some cr))"
proof (induction js)
  case Nil
  show ?case by (simp add: scored_entries_Nil)
next
  case (Cons j js)
  show ?case
  proof (cases "fst (score_job L st se sk ex j)")
    case (Inl e)
    then show ?thesis by (simp add: scored_entries_Cons Cons.IH)
  next
    case (Inr b)
    then show ?thesis
      by (cases b) (auto simp: scored_entries_Cons Cons.IH)
  qed
qed



lemma score_entry_content:
  assumes "score_entry L se sk ex job je doc = Inr (Some cr)"
  shows "\<exists>v sim pct. je = Some v \<and> v \<noteq> [] \<and> float_cosine_similarity L se v = Inr sim
     \<and> pct = (case (case doc of None \<Rightarrow> None | Some d \<Rightarrow> parsed_data d) of
                Some jd \<Rightarrow> float_skill_match_percentage L sk (get_or (required_skills jd) [])
              | None \<Rightarrow> 50)
     \<and> experience_match (snd cr) =
         (case (case doc of None \<Rightarrow> None | Some d \<Rightarrow> parsed_data d) of
            Some jd \<Rightarrow> check_experience_match ex (jobs_min_experience job) (jobs_max_experience job)
          | None \<Rightarrow> True)
     \<and> fst cr = float_combined_score L (fl L (fl L (sim + 1) / 2)) pct (experience_match (snd cr))
     \<and> job_id (snd cr) = jobs_job_id job \<and> job_title (snd cr) = jobs_title job
     \<and> match_score (snd cr) = float_round L (fst cr) 4
     \<and> embedding_similarity (snd cr) = float_round L (fl L (fl L (sim + 1) / 2)) 4
     \<and> skill_match_pct (snd cr) = float_round L pct 2"
proof (cases je)
  case None
  with assms show ?thesis by (simp add: score_entry_def)
next
  case (Some v)
  with assms have ne: "v \<noteq> []" by (auto simp: score_entry_def split: if_splits)
  from assms Some ne obtain sim where sim: "float_cosine_similarity L se v = Inr sim"
    by (cases "float_cosine_similarity L se v") (auto simp: score_entry_def)
  from assms Some ne sim show ?thesis
    by (auto simp: score_entry_def Let_def)
qed

lemma sorted_desc:
  "sorted_wrt (\<lambda>a b. match_score b \<le> match_score a) (sort_by_score xs)"
proof -
  have "sorted (map (\<lambda>x. - match_score x) (sort_by_score xs))"
    unfolding sort_by_score_def by (rule sorted_sort_key)
  then show ?thesis by (simp add: sorted_map)
qed

lemma sort_by_score_stable:
  "filter (\<lambda>r. match_score r = k) (sort_by_score xs) = filter (\<lambda>r. match_score r = k) xs"
  using sort_key_stable [of "\<lambda>x. - match_score x" "- k" xs]
  by (simp add: sort_by_score_def)

lemma generate_Inr:
  assumes "fst (generate_recommendations L st sid top_n ms) = Inr out"
    and "fst (get_student_embedding L st sid False) = Some se" and "se \<noteq> []"
    and "get_by_student st sid = Some d"
  shows "out = slice_to (sort_by_score
           (kept_entries L st se (doc_skills d) (doc_experience d) ms (open_jobs_of st))) top_n"
    and "\<forall>job \<in> set (open_jobs_of st).
           \<not> isl (fst (score_job L st se (doc_skills d) (doc_experience d) job))"
proof -
  from assms obtain recs where
    r: "fst (score_jobs L st se (doc_skills d) (doc_experience d) ms (open_jobs_of st) []) = Inr recs"
    and o: "out = slice_to (sort_by_score recs) top_n"
    by (auto simp: generate_fst split: sum.splits)
  from score_jobs_kept [OF same_view_refl r] o
  show "out = slice_to (sort_by_score
           (kept_entries L st se (doc_skills d) (doc_experience d) ms (open_jobs_of st))) top_n"
    by simp
  from score_jobs_no_error [OF same_view_refl r]
  show "\<forall>job \<in> set (open_jobs_of st).
           \<not> isl (fst (score_job L st se (doc_skills d) (doc_experience d) job))"
    by blast
qed

text \<open>
  C2, amended. When the candidate resolves and no comparison raises, the result is
  the slice \<^verbatim>\<open>[:top_n]\<close> (the first \<open>top_n\<close> entries when \<open>top_n\<close> is not
  negative) of a list that holds exactly the entries of the scored jobs whose
  unrounded combined score is at least \<open>min_score\<close>, in descending order of
  \<open>match_score\<close>, the combined score rounded to four places; entries of equal
  \<open>match_score\<close> keep the order of the job list. Each entry carries the job's id and
  title, the rounded combined score, the similarity normalised to \<open>(s + 1) / 2\<close> and
  rounded to four places, the skill match percentage rounded to two places and the
  experience flag. Scores are those the double arithmetic gives.
\<close>

theorem generate_recommendations_ranked:
  assumes "fst (generate_recommendations L st sid top_n ms) = Inr out"
    and "fst (get_student_embedding L st sid False) = Some se" and "se \<noteq> []"
    and "get_by_student st sid = Some d"
  shows "\<exists>s.
     out = slice_to s top_n
     \<and> (0 \<le> top_n \<longrightarrow> out = take (nat top_n) s \<and> int (length out) \<le> top_n)
     \<and> mset s = mset (kept_entries L st se (doc_skills d) (doc_experience d) ms (open_jobs_of st))
     \<and> sorted_wrt (\<lambda>a b. match_score b \<le> match_score a) s
     \<and> (\<forall>k. filter (\<lambda>r. match_score r = k) s
              = filter (\<lambda>r. match_score r = k)
                  (kept_entries L st se (doc_skills d) (doc_experience d) ms (open_jobs_of st)))
     \<and> (\<forall>cr \<in> set (scored_entries L st se (doc_skills d) (doc_experience d) (open_jobs_of st)).
          \<exists>job \<in> set (open_jobs_of st). \<exists>je sim pct.
            fst (get_job_embedding L st (jobs_job_id job) False) = Some je \<and> je \<noteq> []
            \<and> float_cosine_similarity L se je = Inr sim
            \<and> pct = (case (case get_by_job st (jobs_job_id job) of
                             None \<Rightarrow> None | Some jd \<Rightarrow> parsed_data jd) of
                       Some jd \<Rightarrow>
                         float_skill_match_percentage L (doc_skills d) (get_or (required_skills jd) [])
                     | None \<Rightarrow> 50)
            \<and> experience_match (snd cr) =
                (case (case get_by_job st (jobs_job_id job) of
                         None \<Rightarrow> None | Some jd \<Rightarrow> parsed_data jd) of
                   Some jd \<Rightarrow>
                     check_experience_match (doc_experience d)
                       (jobs_min_experience job) (jobs_max_experience job)
                 | None \<Rightarrow> True)
            \<and> fst cr = float_combined_score L (fl L (fl L (sim + 1) / 2)) pct (experience_match (snd cr))
            \<and> job_id (snd cr) = jobs_job_id job \<and> job_title (snd cr) = jobs_title job
            \<and> match_score (snd cr) = float_round L (fst cr) 4
            \<and> embedding_similarity (snd cr) = float_round L (fl L (fl L (sim + 1) / 2)) 4
            \<and> skill_match_pct (snd cr) = float_round L pct 2)"
proof -
  let ?kept = "kept_entries L st se (doc_skills d) (doc_experience d) ms (open_jobs_of st)"
  let ?s = "sort_by_score ?kept"
  have out: "out = slice_to ?s top_n" by (rule generate_Inr(1) [OF assms])
  have trunc: "0 \<le> top_n \<longrightarrow> out = take (nat top_n) ?s \<and> int (length out) \<le> top_n"
    unfolding out by (auto simp: slice_to_def)
  have m: "mset ?s = mset ?kept" by (simp add: sort_by_score_def)
  have content: "\<exists>job \<in> set (open_jobs_of st). \<exists>je sim pct.
            fst (get_job_embedding L st (jobs_job_id job) False) = Some je \<and> je \<noteq> []
            \<and> float_cosine_similarity L se je = Inr sim
            \<and> pct = (case (case get_by_job st (jobs_job_id job) of
                             None \<Rightarrow> None | Some jd \<Rightarrow> parsed_data jd) of
                       Some jd \<Rightarrow>
                         float_skill_match_percentage L (doc_skills d) (get_or (required_skills jd) [])
                     | None \<Rightarrow> 50)
            \<and> experience_match (snd cr) =
                (case (case get_by_job st (jobs_job_id job) of
                         None \<Rightarrow> None | Some jd \<Rightarrow> parsed_data jd) of
                   Some jd \<Rightarrow>
                     check_experience_match (doc_experience d)
                       (jobs_min_experience job) (jobs_max_experience job)
                 | None \<Rightarrow> True)
            \<and> fst cr = float_combined_score L (fl L (fl L (sim + 1) / 2)) pct (experience_match (snd cr))
            \<and> job_id (snd cr) = jobs_job_id job \<and> job_title (snd cr) = jobs_title job
            \<and> match_score (snd cr) = float_round L (fst cr) 4
            \<and> embedding_similarity (snd cr) = float_round L (fl L (fl L (sim + 1) / 2)) 4
            \<and> skill_match_pct (snd cr) = float_round L pct 2"
    if "cr \<in> set (scored_entries L st se (doc_skills d) (doc_experience d) (open_jobs_of st))" for cr
  proof -
    from that obtain job where j: "job \<in> set (open_jobs_of st)"
      and e: "fst (score_job L st se (doc_skills d) (doc_experience d) job) = Inr (Some cr)"
      unfolding scored_entries_mem by blast
    from score_entry_content [OF e [unfolded score_job_fst]] j show ?thesis by blast
  qed
  show ?thesis
    by (rule exI [of _ ?s]) (use out trunc m sorted_desc sort_by_score_stable content in blast)
qed








subsection \<open>The statements at the example data\<close>

lemma ex_student_fst: "fst (get_student_embedding example_lib example_stores 1 False) = Some [1, 0]"
  by (simp add: ex_student)

theorem generate_recommendations_ranked_witness:
  "\<exists>s. [\<lparr>job_id = 10, job_title = ''Analyst'', match_score = 4 / 5, skill_match_pct = 50,
            experience_match = True, embedding_similarity = 1\<rparr>,
           \<lparr>job_id = 11, job_title = ''Engineer'', match_score = 4 / 5, skill_match_pct = 50,
            experience_match = True, embedding_similarity = 1\<rparr>,
           \<lparr>job_id = 12, job_title = ''Tester'', match_score = 11 / 20, skill_match_pct = 50,
            experience_match = True, embedding_similarity = 1 / 2\<rparr>] = take 10 s
     \<and> mset s = mset (kept_entries example_lib example_stores [1, 0] [''Python''] 1 (3 / 10)
                       (open_jobs_of example_stores))
     \<and> sorted_wrt (\<lambda>a b. match_score b \<le> match_score a) s"
proof -
  have ne: "[1, 0 :: real] \<noteq> []" by simp
  from generate_recommendations_ranked [OF ex_generate ex_student_fst ne ex_doc]
  show ?thesis by (auto simp: ex_doc_fields)
qed

theorem generate_recommendations_empty_witness:
  "fst (generate_recommendations example_lib example_stores 2 10 (3 / 10)) = Inr []
   \<and> fst (generate_recommendations example_lib (example_stores\<lparr>jobs := []\<rparr>) 1 10 (3 / 10)) = Inr []"
proof -
  have a: "get_by_student example_stores 2 = None"
    by (simp add: get_by_student_def example_stores_def)
  have b: "open_jobs_of (example_stores\<lparr>jobs := []\<rparr>) = []"
    by (simp add: open_jobs_of_def)
  from generate_recommendations_empty [of example_lib example_stores 2 10 "3 / 10"] a
    generate_recommendations_empty [of example_lib "example_stores\<lparr>jobs := []\<rparr>" 1 10 "3 / 10"] b
  show ?thesis by simp
qed

theorem generate_recommendations_idempotent_witness:
  "fst (generate_recommendations example_lib
          (snd (generate_recommendations example_lib example_stores 1 10 (3 / 10))) 1 10 (3 / 10))
     = Inr [\<lparr>job_id = 10, job_title = ''Analyst'', match_score = 4 / 5, skill_match_pct = 50,
            experience_match = True, embedding_similarity = 1\<rparr>,
           \<lparr>job_id = 11, job_title = ''Engineer'', match_score = 4 / 5, skill_match_pct = 50,
            experience_match = True, embedding_similarity = 1\<rparr>,
           \<lparr>job_id = 12, job_title = ''Tester'', match_score = 11 / 20, skill_match_pct = 50,
            experience_match = True, embedding_similarity = 1 / 2\<rparr>]"
  using generate_recommendations_idempotent [of example_lib example_stores 1 10 "3 / 10"]
  by (simp add: ex_generate)


end
